theory Spec2Isabelle
  imports Complex_Main
begin

section \<open>ECMAScript numbers\<close>

text \<open>
  A JavaScript \<^verbatim>\<open>number\<close> is an IEEE double. The model keeps the three special values
  the code can observe (NaN and the two infinities) apart from the finite values, and
  computes on finite values with exact real arithmetic: rounding of the binary
  representation, overflow to infinity and the sign of zero are not modelled.
\<close>

datatype number = NaN | NegInf | Fin real | PosInf

fun Number_isNaN :: "number \<Rightarrow> bool" where
  "Number_isNaN NaN = True"
| "Number_isNaN _ = False"

fun Number_isFinite :: "number \<Rightarrow> bool" where
  "Number_isFinite (Fin _) = True"
| "Number_isFinite _ = False"

text \<open>The relational operators \<^verbatim>\<open><=\<close> and \<^verbatim>\<open>>=\<close>: every comparison with NaN is false.\<close>

fun le_num :: "number \<Rightarrow> number \<Rightarrow> bool" where
  "le_num NaN _ = False"
| "le_num _ NaN = False"
| "le_num NegInf _ = True"
| "le_num _ PosInf = True"
| "le_num (Fin a) (Fin b) = (a \<le> b)"
| "le_num (Fin _) NegInf = False"
| "le_num PosInf _ = False"

definition ge_num :: "number \<Rightarrow> number \<Rightarrow> bool" where
  "ge_num a b = le_num b a"

fun lt_num :: "number \<Rightarrow> number \<Rightarrow> bool" where
  "lt_num NaN _ = False"
| "lt_num _ NaN = False"
| "lt_num (Fin a) (Fin b) = (a < b)"
| "lt_num PosInf _ = False"
| "lt_num _ NegInf = False"
| "lt_num NegInf _ = True"
| "lt_num _ PosInf = True"

fun neg_num :: "number \<Rightarrow> number" where
  "neg_num NaN = NaN"
| "neg_num NegInf = PosInf"
| "neg_num PosInf = NegInf"
| "neg_num (Fin a) = Fin (- a)"

fun add_num :: "number \<Rightarrow> number \<Rightarrow> number" where
  "add_num NaN _ = NaN"
| "add_num _ NaN = NaN"
| "add_num (Fin a) (Fin b) = Fin (a + b)"
| "add_num PosInf NegInf = NaN"
| "add_num NegInf PosInf = NaN"
| "add_num PosInf _ = PosInf"
| "add_num NegInf _ = NegInf"
| "add_num (Fin _) b = b"

definition sub_num :: "number \<Rightarrow> number \<Rightarrow> number" where
  "sub_num a b = add_num a (neg_num b)"

text \<open>The sign of a non-NaN number, as multiplication and division use it.\<close>

fun is_negative :: "number \<Rightarrow> bool" where
  "is_negative NegInf = True"
| "is_negative (Fin a) = (a < 0)"
| "is_negative _ = False"

definition signed_inf :: "bool \<Rightarrow> number" where
  "signed_inf negative = (if negative then NegInf else PosInf)"

fun mul_num :: "number \<Rightarrow> number \<Rightarrow> number" where
  "mul_num NaN _ = NaN"
| "mul_num _ NaN = NaN"
| "mul_num (Fin a) (Fin b) = Fin (a * b)"
| "mul_num (Fin a) b = (if a = 0 then NaN else signed_inf (is_negative (Fin a) \<noteq> is_negative b))"
| "mul_num a (Fin b) = (if b = 0 then NaN else signed_inf (is_negative a \<noteq> is_negative (Fin b)))"
| "mul_num a b = signed_inf (is_negative a \<noteq> is_negative b)"

fun div_num :: "number \<Rightarrow> number \<Rightarrow> number" where
  "div_num NaN _ = NaN"
| "div_num _ NaN = NaN"
| "div_num (Fin a) (Fin b) =
     (if b \<noteq> 0 then Fin (a / b)
      else if a = 0 then NaN
      else signed_inf (a < 0))"
| "div_num (Fin _) _ = Fin 0"
| "div_num a (Fin b) = signed_inf (is_negative a \<noteq> is_negative (Fin b))"
| "div_num _ _ = NaN"

text \<open>\<^verbatim>\<open>Math.min\<close> and \<^verbatim>\<open>Math.max\<close> return NaN as soon as one argument is NaN.\<close>

definition Math_min :: "number \<Rightarrow> number \<Rightarrow> number" where
  "Math_min a b =
     (if Number_isNaN a \<or> Number_isNaN b then NaN else if le_num a b then a else b)"

definition Math_max :: "number \<Rightarrow> number \<Rightarrow> number" where
  "Math_max a b =
     (if Number_isNaN a \<or> Number_isNaN b then NaN else if le_num a b then b else a)"

text \<open>\<^verbatim>\<open>Math.round\<close>: the nearest integer, a tie going to the larger one.\<close>

fun Math_round :: "number \<Rightarrow> number" where
  "Math_round (Fin a) = Fin (of_int \<lfloor>a + 1 / 2\<rfloor>)"
| "Math_round a = a"

section \<open>The risk scorer\<close>

record MarineSnapshot =
  hs :: "number option"
  windKt :: "number option"
  swellPeriod :: "number option"
  ioi :: "number option"

definition HS_CAUTION :: number where "HS_CAUTION = Fin 1.5"
definition HS_NOGO :: number where "HS_NOGO = Fin 2.5"
definition WIND_CAUTION :: number where "WIND_CAUTION = Fin 18"
definition WIND_NOGO :: number where "WIND_NOGO = Fin 28"
definition SWELL_MIN :: number where "SWELL_MIN = Fin 6"
definition SWELL_MAX :: number where "SWELL_MAX = Fin 12"

text \<open>
  The three sub-scores are local constants of \<^verbatim>\<open>computeIoiFromMarine\<close>; each is a
  definition of its own here. An absent field (\<^verbatim>\<open>undefined\<close> or \<^verbatim>\<open>null\<close>) is \<open>None\<close>.
\<close>

definition hsScore :: "number option \<Rightarrow> number" where
  "hsScore h =
     (case h of
        None \<Rightarrow> Fin 0.5
      | Some x \<Rightarrow>
          if Number_isNaN x then Fin 0.5
          else if le_num x HS_CAUTION then Fin 1
          else if ge_num x HS_NOGO then Fin 0
          else sub_num (Fin 1) (div_num (sub_num x HS_CAUTION) (sub_num HS_NOGO HS_CAUTION)))"

definition windScore :: "number option \<Rightarrow> number" where
  "windScore w =
     (case w of
        None \<Rightarrow> Fin 0.5
      | Some x \<Rightarrow>
          if Number_isNaN x then Fin 0.5
          else if le_num x WIND_CAUTION then Fin 1
          else if ge_num x WIND_NOGO then Fin 0
          else sub_num (Fin 1) (div_num (sub_num x WIND_CAUTION) (sub_num WIND_NOGO WIND_CAUTION)))"

definition boundedPeriod :: "number option \<Rightarrow> number" where
  "boundedPeriod p =
     Math_min SWELL_MAX (Math_max SWELL_MIN (case p of None \<Rightarrow> Fin 8 | Some x \<Rightarrow> x))"

definition swellScore :: "number option \<Rightarrow> number" where
  "swellScore p = div_num (sub_num (boundedPeriod p) SWELL_MIN) (sub_num SWELL_MAX SWELL_MIN)"

definition combined :: "MarineSnapshot \<Rightarrow> number" where
  "combined snapshot =
     add_num
       (add_num (mul_num (Fin 0.5) (hsScore (hs snapshot)))
                (mul_num (Fin 0.35) (windScore (windKt snapshot))))
       (mul_num (Fin 0.15) (swellScore (swellPeriod snapshot)))"

text \<open>
  The declared result type is \<^verbatim>\<open>number | null\<close>; \<open>None\<close> is \<^verbatim>\<open>null\<close>. The sum is the
  exact one: where 100 times the exact sum is a half (57.5 at wave height 1, wind 28 and
  period 9) the binary sum can fall just below it and round to the integer below.
\<close>

definition computeIoiFromMarine :: "MarineSnapshot \<Rightarrow> number option" where
  "computeIoiFromMarine snapshot =
     (let ioi = Math_round (mul_num (combined snapshot) (Fin 100))
      in Some (Math_max (Fin 0) (Math_min (Fin 100) ioi)))"

record VoyageRecord =
  voyage_id :: string
  cargo :: string
  etd :: string
  eta :: string
  voyage_status :: string
  origin :: string
  destination :: string
  swellFt :: number
  voyage_windKt :: number

definition deriveVoyageIoi :: "VoyageRecord \<Rightarrow> number" where
  "deriveVoyageIoi voyage =
     (let h = div_num (swellFt voyage) (Fin 3.28084);
          snapshot = \<lparr>hs = Some h, windKt = Some (voyage_windKt voyage),
                      swellPeriod = Some (Fin 8), ioi = None\<rparr>
      in case computeIoiFromMarine snapshot of None \<Rightarrow> Fin 50 | Some v \<Rightarrow> v)"

section \<open>Strings\<close>

text \<open>
  Strings are well-formed Unicode text held as UTF-8 bytes; the few characters of the
  source outside ASCII are spelled out as their bytes.
\<close>

definition newline :: string where "newline = [CHR 0x0A]"
definition middot :: string where "middot = [CHR 0xC2, CHR 0xB7]"
definition endash :: string where "endash = [CHR 0xE2, CHR 0x80, CHR 0x93]"

text \<open>
  The white space and line terminators of ECMAScript, which \<^verbatim>\<open>String.prototype.trim\<close>
  strips, each as its UTF-8 bytes: U+0009 to U+000D, U+0020, U+00A0, U+1680, U+2000 to
  U+200A, U+2028, U+2029, U+202F, U+205F, U+3000 and U+FEFF.
\<close>

definition white_space :: "string list" where
  "white_space =
     [[CHR 0x09], [CHR 0x0A], [CHR 0x0B], [CHR 0x0C], [CHR 0x0D], [CHR 0x20],
      [CHR 0xC2, CHR 0xA0],
      [CHR 0xE1, CHR 0x9A, CHR 0x80],
      [CHR 0xE2, CHR 0x80, CHR 0x80], [CHR 0xE2, CHR 0x80, CHR 0x81],
      [CHR 0xE2, CHR 0x80, CHR 0x82], [CHR 0xE2, CHR 0x80, CHR 0x83],
      [CHR 0xE2, CHR 0x80, CHR 0x84], [CHR 0xE2, CHR 0x80, CHR 0x85],
      [CHR 0xE2, CHR 0x80, CHR 0x86], [CHR 0xE2, CHR 0x80, CHR 0x87],
      [CHR 0xE2, CHR 0x80, CHR 0x88], [CHR 0xE2, CHR 0x80, CHR 0x89],
      [CHR 0xE2, CHR 0x80, CHR 0x8A],
      [CHR 0xE2, CHR 0x80, CHR 0xA8], [CHR 0xE2, CHR 0x80, CHR 0xA9],
      [CHR 0xE2, CHR 0x80, CHR 0xAF],
      [CHR 0xE2, CHR 0x81, CHR 0x9F],
      [CHR 0xE3, CHR 0x80, CHR 0x80],
      [CHR 0xEF, CHR 0xBB, CHR 0xBF]]"

fun starts_with :: "string \<Rightarrow> string \<Rightarrow> bool" where
  "starts_with [] s = True"
| "starts_with (a # t) [] = False"
| "starts_with (a # t) (b # s) = (a = b \<and> starts_with t s)"

text \<open>The length of the first of the tokens that the string starts with, 0 when none does.\<close>

fun leading :: "string list \<Rightarrow> string \<Rightarrow> nat" where
  "leading [] s = 0"
| "leading (t # ts) s = (if starts_with t s then length t else leading ts s)"

function strip :: "string list \<Rightarrow> string \<Rightarrow> string" where
  "strip ts s =
     (if s = [] \<or> leading ts s = 0 then s else strip ts (drop (leading ts s) s))"
  by pat_completeness auto
termination
  by (relation "measure (\<lambda>(ts, s). length s)") auto

definition trimStart :: "string \<Rightarrow> string" where
  "trimStart s = strip white_space s"

definition trimEnd :: "string \<Rightarrow> string" where
  "trimEnd s = rev (strip (map rev white_space) (rev s))"

definition trim :: "string \<Rightarrow> string" where
  "trim s = trimEnd (trimStart s)"

text \<open>\<^verbatim>\<open>s.split(",")\<close>: the pieces between the separators, one piece for a string without any.\<close>

fun split :: "char \<Rightarrow> string \<Rightarrow> string list" where
  "split sep [] = [[]]"
| "split sep (c # cs) =
     (if c = sep then [] # split sep cs
      else (case split sep cs of
              [] \<Rightarrow> [[c]]
            | piece # pieces \<Rightarrow> (c # piece) # pieces))"

text \<open>\<^verbatim>\<open>parts.join(sep)\<close>.\<close>

fun join :: "string \<Rightarrow> string list \<Rightarrow> string" where
  "join sep [] = []"
| "join sep [x] = x"
| "join sep (x # y # ys) = x @ sep @ join sep (y # ys)"

text \<open>The decimal digits of a natural number, as a template literal prints an integer.\<close>

definition digit :: "nat \<Rightarrow> char" where
  "digit k = ''0123456789'' ! (k mod 10)"

function show_nat :: "nat \<Rightarrow> string" where
  "show_nat n = (if n < 10 then [digit n] else show_nat (n div 10) @ [digit (n mod 10)])"
  by pat_completeness auto
termination
  by (relation "measure (\<lambda>n. n)") auto

section \<open>The platform: fetch, the process environment\<close>

datatype NotifyChannel = Slack | Email

record NotifyResult =
  channel :: NotifyChannel
  ok :: bool
  error :: "string option"

datatype ReportSlot = Am | Pm

text \<open>What a \<^verbatim>\<open>catch\<close> clause can receive: an \<^verbatim>\<open>Error\<close> with its message, or any other value.\<close>

datatype thrown = Error string | NonError

text \<open>
  The upstream payloads at the types the repository declares for them, every field
  optional as the handler reads them (\<^verbatim>\<open>?.\<close>, \<^verbatim>\<open>??\<close>).
\<close>

record VesselPayload =
  vessel_name :: "string option"
  vessel_status :: "string option"
  vessel_port :: "string option"
  schedule :: "VoyageRecord list option"

record MarinePayload = MarineSnapshot +
  port :: "string option"

text \<open>The body of the report route's answer; \<open>generatedAt\<close> is the instant in epoch milliseconds.\<close>

datatype marine_field = MarinePort "string option" | MarineError string

record ReportJson =
  report_ok :: bool
  report_preview :: bool
  report_error :: "string option"
  report_slot :: "ReportSlot option"
  report_generatedAt :: "int option"
  report_timezone :: "string option"
  report_sample :: "string option"
  report_sent :: "NotifyResult list"
  report_scheduleSize :: "nat option"
  report_marine :: "marine_field option"
  report_slotTime :: "string option"

datatype json_body =
    VesselJson VesselPayload
  | MarineJson "MarinePayload option"
  | BriefingJson "string option"
  | ReportBody ReportJson

text \<open>\<open>json\<close> is what \<^verbatim>\<open>await response.json()\<close> gives: the parsed body, or the error thrown.\<close>

record Response =
  status :: nat
  json :: "thrown + json_body"

text \<open>\<^verbatim>\<open>response.ok\<close> of the Fetch standard: the status is in the range 200 to 299.\<close>

definition response_ok :: "Response \<Rightarrow> bool" where
  "response_ok r = (200 \<le> status r \<and> status r \<le> 299)"

text \<open>
  A URL is absolute, or a path with its query parameters resolved against the URL of the
  incoming request (\<^verbatim>\<open>relativeUrl\<close>); the parameters are kept before percent-encoding.
\<close>

datatype url = Absolute string | Relative string "(string \<times> string) list"

datatype request_body =
    SlackBody string
  | EmailBody string "string list" string string
  | BriefingRequest int VesselPayload

datatype request =
    GetReq url
  | PostReq url "(string \<times> string) list" request_body

datatype fetch_outcome = Resolved Response | Rejected thrown

text \<open>
  The process environment and the platform functions the code calls: the global
  \<^verbatim>\<open>fetch\<close>; the hour of an instant in a time zone, or the \<^verbatim>\<open>RangeError\<close> that
  \<^verbatim>\<open>Intl.DateTimeFormat\<close> throws for a zone the platform does not know; and the string of
  a number of magnitude \<open>10\<^sup>2\<^sup>1\<close> or more (to which \<^verbatim>\<open>toFixed\<close> falls back).
\<close>

record World =
  SLACK_WEBHOOK_URL :: "string option"
  RESEND_API_KEY :: "string option"
  REPORT_SENDER :: "string option"
  REPORT_RECIPIENTS :: "string option"
  REPORT_TIMEZONE :: "string option"
  REPORT_ENDPOINT :: "string option"
  fetch :: "request \<Rightarrow> fetch_outcome"
  hour_in_zone :: "string \<Rightarrow> int \<Rightarrow> thrown + nat"
  number_toString :: "real \<Rightarrow> string"

text \<open>\<^verbatim>\<open>a ?? b\<close>.\<close>

definition nullish :: "'a option \<Rightarrow> 'a option \<Rightarrow> 'a option" where
  "nullish a b = (case a of None \<Rightarrow> b | Some x \<Rightarrow> Some x)"

text \<open>\<^verbatim>\<open>error instanceof Error ? error.message : fallback\<close>.\<close>

definition error_message :: "thrown \<Rightarrow> string \<Rightarrow> string" where
  "error_message e fallback = (case e of Error m \<Rightarrow> m | NonError \<Rightarrow> fallback)"

section \<open>The notifier (lib/server/notifier.ts)\<close>

record SendOptions =
  fetchImpl :: "(request \<Rightarrow> fetch_outcome) option"

record SlackOptions = SendOptions +
  opt_message :: string
  opt_webhookUrl :: "string option"

record EmailOptions = SendOptions +
  opt_subject :: string
  opt_text :: string
  opt_to :: "string list option"
  opt_from :: "string option"
  opt_apiKey :: "string option"

text \<open>The argument of \<^verbatim>\<open>normaliseRecipients\<close>: absent, one string, or a list.\<close>

datatype recipients = RecipientString string | RecipientList "string list"

definition normaliseRecipients :: "recipients option \<Rightarrow> string list" where
  "normaliseRecipients list =
     (case list of
        None \<Rightarrow> []
      | Some (RecipientString s) \<Rightarrow>
          if s = [] then []
          else filter (\<lambda>entry. length entry > 0) (map trim (split CHR '','' s))
      | Some (RecipientList l) \<Rightarrow>
          filter (\<lambda>entry. length entry > 0) (map trim l))"

text \<open>
  Both senders return their result together with the requests they issued, in order.
\<close>

definition sendSlack :: "SlackOptions \<Rightarrow> World \<Rightarrow> NotifyResult \<times> request list" where
  "sendSlack options w =
     (let fetchImpl = (case fetchImpl options of None \<Rightarrow> fetch w | Some f \<Rightarrow> f);
          webhook = nullish (opt_webhookUrl options) (SLACK_WEBHOOK_URL w)
      in case webhook of
           None \<Rightarrow>
             (\<lparr>channel = Slack, ok = False, error = Some ''Missing Slack webhook URL''\<rparr>, [])
         | Some hook \<Rightarrow>
             if hook = [] then
               (\<lparr>channel = Slack, ok = False, error = Some ''Missing Slack webhook URL''\<rparr>, [])
             else
               (let req = PostReq (Absolute hook) [(''Content-Type'', ''application/json'')]
                            (SlackBody (opt_message options))
                in case fetchImpl req of
                     Resolved response \<Rightarrow>
                       if \<not> response_ok response then
                         (\<lparr>channel = Slack, ok = False,
                           error = Some (''Slack webhook responded '' @ show_nat (status response))\<rparr>,
                          [req])
                       else (\<lparr>channel = Slack, ok = True, error = None\<rparr>, [req])
                   | Rejected e \<Rightarrow>
                       (\<lparr>channel = Slack, ok = False,
                         error = Some (error_message e ''Slack webhook error'')\<rparr>, [req])))"

definition email_recipients :: "EmailOptions \<Rightarrow> World \<Rightarrow> string list" where
  "email_recipients options w =
     normaliseRecipients
       (case opt_to options of
          Some l \<Rightarrow> Some (RecipientList l)
        | None \<Rightarrow> map_option (\<lambda>s. RecipientList (split CHR '','' s)) (REPORT_RECIPIENTS w))"

definition sendEmail :: "EmailOptions \<Rightarrow> World \<Rightarrow> NotifyResult \<times> request list" where
  "sendEmail options w =
     (let fetchImpl = (case fetchImpl options of None \<Rightarrow> fetch w | Some f \<Rightarrow> f);
          recipients = email_recipients options w;
          missing_key = (\<lparr>channel = Email, ok = False, error = Some ''Missing Resend API key''\<rparr>, []);
          missing_sender =
            (\<lparr>channel = Email, ok = False, error = Some ''Missing report sender address''\<rparr>, [])
      in if recipients = [] then
           (\<lparr>channel = Email, ok = False, error = Some ''Missing email recipients''\<rparr>, [])
         else
           (case nullish (opt_apiKey options) (RESEND_API_KEY w) of
              None \<Rightarrow> missing_key
            | Some apiKey \<Rightarrow>
                if apiKey = [] then missing_key
                else
                  (case nullish (opt_from options) (REPORT_SENDER w) of
                     None \<Rightarrow> missing_sender
                   | Some sender \<Rightarrow>
                       if sender = [] then missing_sender
                       else
                         (let req = PostReq (Absolute ''https://api.resend.com/emails'')
                                      [(''Content-Type'', ''application/json''),
                                       (''Authorization'', ''Bearer '' @ apiKey)]
                                      (EmailBody sender recipients
                                         (opt_subject options) (opt_text options))
                          in case fetchImpl req of
                               Resolved response \<Rightarrow>
                                 if \<not> response_ok response then
                                   (\<lparr>channel = Email, ok = False,
                                     error = Some (''Resend responded '' @ show_nat (status response))\<rparr>,
                                    [req])
                                 else (\<lparr>channel = Email, ok = True, error = None\<rparr>, [req])
                             | Rejected e \<Rightarrow>
                                 (\<lparr>channel = Email, ok = False,
                                   error = Some (error_message e ''Resend request failed'')\<rparr>,
                                  [req])))))"

section \<open>The report route (app/api/report/route.ts)\<close>

record LastReportMeta =
  slot :: ReportSlot
  generatedAt :: int
  timezone :: string
  sample :: string
  sent :: "NotifyResult list"

definition DEFAULT_TZ :: string where "DEFAULT_TZ = ''Asia/Dubai''"

definition REPORT_SLOTS :: "ReportSlot \<Rightarrow> string" where
  "REPORT_SLOTS s = (case s of Am \<Rightarrow> ''06:00'' | Pm \<Rightarrow> ''17:00'')"

text \<open>The two constants of \<^verbatim>\<open>VESSEL_DATASET\<close> the route reads.\<close>

definition VESSEL_DATASET_timezone :: string where "VESSEL_DATASET_timezone = ''Asia/Dubai''"
definition VESSEL_DATASET_vessel_port :: string where "VESSEL_DATASET_vessel_port = ''Jebel Ali''"

text \<open>\<^verbatim>\<open>a || b || c\<close> on strings: the first that is present and not empty.\<close>

definition resolveTimezone :: "World \<Rightarrow> string" where
  "resolveTimezone w =
     (case REPORT_TIMEZONE w of
        Some tz \<Rightarrow> if tz \<noteq> [] then tz
                   else if VESSEL_DATASET_timezone \<noteq> [] then VESSEL_DATASET_timezone else DEFAULT_TZ
      | None \<Rightarrow> if VESSEL_DATASET_timezone \<noteq> [] then VESSEL_DATASET_timezone else DEFAULT_TZ)"

text \<open>
  \<^verbatim>\<open>inferSlot\<close> builds the formatter for the zone, which throws for an unknown zone;
  \<open>Inl\<close> is what it throws. Nothing around its call catches it.
\<close>

definition inferSlot :: "World \<Rightarrow> int \<Rightarrow> string \<Rightarrow> thrown + ReportSlot" where
  "inferSlot w now tz =
     (case hour_in_zone w tz now of
        Inl e \<Rightarrow> Inl e
      | Inr hour \<Rightarrow> Inr (if hour < 12 then Am else Pm))"

definition normaliseSlot ::
  "World \<Rightarrow> string option \<Rightarrow> int \<Rightarrow> string \<Rightarrow> thrown + ReportSlot" where
  "normaliseSlot w slotParam now tz =
     (if slotParam = Some ''am'' then Inr Am
      else if slotParam = Some ''pm'' then Inr Pm
      else inferSlot w now tz)"

definition relativeUrl :: "string \<Rightarrow> (string \<times> string) list \<Rightarrow> url" where
  "relativeUrl path query = Relative path query"

definition pathname :: "url \<Rightarrow> string" where
  "pathname u = (case u of Relative path _ \<Rightarrow> path | Absolute a \<Rightarrow> a)"

text \<open>\<^verbatim>\<open>fetchJson\<close> issues one GET; \<open>Inl\<close> is what it throws.\<close>

definition fetchJson :: "World \<Rightarrow> url \<Rightarrow> thrown + json_body" where
  "fetchJson w u =
     (case fetch w (GetReq u) of
        Rejected e \<Rightarrow> Inl e
      | Resolved response \<Rightarrow>
          if \<not> response_ok response then
            Inl (Error (''Failed to fetch '' @ pathname u @ '': '' @ show_nat (status response)))
          else json response)"

text \<open>
  \<^verbatim>\<open>x.toFixed(d)\<close> on a finite number: the sign, then the nearest multiple of \<open>10\<^sup>-\<^sup>d\<close>
  (a tie going away from zero) in decimal digits.
\<close>

definition toFixed :: "World \<Rightarrow> nat \<Rightarrow> real \<Rightarrow> string" where
  "toFixed w d x =
     (if 10 ^ 21 \<le> \<bar>x\<bar> then number_toString w x
      else
        (let n = nat \<lfloor>\<bar>x\<bar> * 10 ^ d + 1 / 2\<rfloor>;
             m = show_nat n;
             m = (if d = 0 then m
                  else (let m = (if length m \<le> d then replicate (d + 1 - length m) CHR ''0'' @ m else m);
                            k = length m
                        in take (k - d) m @ ''.'' @ drop (k - d) m))
         in (if x < 0 then ''-'' else []) @ m))"

definition formatMetric :: "World \<Rightarrow> number option \<Rightarrow> string \<Rightarrow> string" where
  "formatMetric w v unit =
     (case v of
        Some (Fin x) \<Rightarrow> toFixed w 2 x @ '' '' @ unit
      | _ \<Rightarrow> ''n/a '' @ unit)"

text \<open>The placeholder line ends with the Korean for "no data".\<close>

definition no_marine_data :: string where
  "no_marine_data = ''[Marine Snapshot] '' @
     [CHR 0xEB, CHR 0x8D, CHR 0xB0, CHR 0xEC, CHR 0x9D, CHR 0xB4, CHR 0xED, CHR 0x84, CHR 0xB0,
      CHR 0x20, CHR 0xEC, CHR 0x97, CHR 0x86, CHR 0xEC, CHR 0x9D, CHR 0x8C]"

definition buildMarineLine :: "World \<Rightarrow> MarinePayload option \<Rightarrow> string" where
  "buildMarineLine w snapshot =
     (case snapshot of
        None \<Rightarrow> no_marine_data
      | Some s \<Rightarrow>
          (let h = formatMetric w (hs s) ''m'';
               wind = formatMetric w (windKt s) ''kt'';
               i = (case ioi s of Some (Fin x) \<Rightarrow> toFixed w 0 x | _ \<Rightarrow> ''n/a'')
           in ''[Marine Snapshot] Hs '' @ h @ '' '' @ middot @ '' Wind '' @ wind @ '' '' @ middot @
              '' IOI '' @ i))"


definition slot_upper :: "ReportSlot \<Rightarrow> string" where
  "slot_upper s = (case s of Am \<Rightarrow> ''AM'' | Pm \<Rightarrow> ''PM'')"

definition slackMessage :: "string \<Rightarrow> ReportSlot \<Rightarrow> string \<Rightarrow> string" where
  "slackMessage the_sample the_slot tz =
     (let label = (if the_slot = Am then ''Morning'' else ''Evening'')
      in join (newline @ newline)
           [''*Daily Report '' @ endash @ '' '' @ label @ '' ('' @ tz @ '')*'', the_sample])"

text \<open>The subject carries the Korean for "automatic briefing".\<close>

definition emailSubject :: "string \<Rightarrow> ReportSlot \<Rightarrow> string \<Rightarrow> string" where
  "emailSubject vesselName the_slot tz =
     (let slotLabel = (if the_slot = Am then ''06:00'' else ''17:00'')
      in vesselName @ '' '' @
         [CHR 0xEC, CHR 0x9E, CHR 0x90, CHR 0xEB, CHR 0x8F, CHR 0x99, CHR 0x20,
          CHR 0xEB, CHR 0xB8, CHR 0x8C, CHR 0xEB, CHR 0xA6, CHR 0xAC, CHR 0xED, CHR 0x95, CHR 0x91] @
         '' '' @ middot @ '' '' @ slot_upper the_slot @ '' ('' @ slotLabel @ '' '' @ tz @ '')'')"

text \<open>
  The handler reads the parsed bodies at unchecked types; a body of another shape has
  none of the fields it looks for.
\<close>

definition as_vessel :: "json_body \<Rightarrow> VesselPayload" where
  "as_vessel b =
     (case b of
        VesselJson v \<Rightarrow> v
      | _ \<Rightarrow> \<lparr>vessel_name = None, vessel_status = None, vessel_port = None, schedule = None\<rparr>)"

definition as_marine :: "json_body \<Rightarrow> MarinePayload option" where
  "as_marine b =
     (case b of
        MarineJson m \<Rightarrow> m
      | _ \<Rightarrow> Some \<lparr>hs = None, windKt = None, swellPeriod = None, ioi = None, port = None\<rparr>)"

definition as_briefing :: "json_body \<Rightarrow> string option" where
  "as_briefing b = (case b of BriefingJson t \<Rightarrow> t | _ \<Rightarrow> None)"

text \<open>The three \<^verbatim>\<open>try\<close> blocks of the handler; \<open>Inl\<close> is what the \<^verbatim>\<open>catch\<close> clause receives.\<close>

definition vessel_url :: url where
  "vessel_url = relativeUrl ''/api/vessel'' []"

definition try_vessel :: "World \<Rightarrow> thrown + VesselPayload" where
  "try_vessel w = map_sum id as_vessel (fetchJson w vessel_url)"

definition marine_url :: "VesselPayload \<Rightarrow> url" where
  "marine_url vesselData =
     (let p = (case vessel_port vesselData of None \<Rightarrow> VESSEL_DATASET_vessel_port | Some q \<Rightarrow> q)
      in relativeUrl ''/api/marine'' [(''port'', p)])"

definition try_marine :: "World \<Rightarrow> VesselPayload \<Rightarrow> thrown + MarinePayload option" where
  "try_marine w vesselData = map_sum id as_marine (fetchJson w (marine_url vesselData))"

definition briefing_request :: "int \<Rightarrow> VesselPayload \<Rightarrow> request" where
  "briefing_request now vesselData =
     PostReq (relativeUrl ''/api/briefing'' []) [(''Content-Type'', ''application/json'')]
       (BriefingRequest now vesselData)"

definition try_briefing :: "World \<Rightarrow> int \<Rightarrow> VesselPayload \<Rightarrow> thrown + string" where
  "try_briefing w now vesselData =
     (case fetch w (briefing_request now vesselData) of
        Rejected e \<Rightarrow> Inl e
      | Resolved response \<Rightarrow>
          if \<not> response_ok response then
            Inl (Error (''Briefing route responded '' @ show_nat (status response)))
          else
            (case json response of
               Inl e \<Rightarrow> Inl e
             | Inr data \<Rightarrow> Inr (case as_briefing data of None \<Rightarrow> [] | Some t \<Rightarrow> t)))"

record ReportRequest =
  has_preview :: bool
  slot_param :: "string option"

definition failure_json :: "string \<Rightarrow> ReportJson" where
  "failure_json message =
     \<lparr>report_ok = False, report_preview = False, report_error = Some message,
      report_slot = None, report_generatedAt = None, report_timezone = None,
      report_sample = None, report_sent = [], report_scheduleSize = None,
      report_marine = None, report_slotTime = None\<rparr>"

definition preview_json :: "string \<Rightarrow> LastReportMeta option \<Rightarrow> ReportJson" where
  "preview_json tz lastReport =
     \<lparr>report_ok = (case lastReport of None \<Rightarrow> False | Some r \<Rightarrow> list_ex ok (sent r)),
      report_preview = True, report_error = None,
      report_slot = map_option slot lastReport,
      report_generatedAt = map_option generatedAt lastReport,
      report_timezone = Some tz,
      report_sample = map_option sample lastReport,
      report_sent = (case lastReport of None \<Rightarrow> [] | Some r \<Rightarrow> sent r),
      report_scheduleSize = None, report_marine = None, report_slotTime = None\<rparr>"

text \<open>
  The handler, given the request, the instant \<open>now\<close>, the world and the module variable
  \<^verbatim>\<open>lastReport\<close>: what it answers (the HTTP status and body, or \<open>Inl\<close> what it throws),
  the new value of \<^verbatim>\<open>lastReport\<close>, and the requests it issued, in order.
\<close>

definition GET ::
  "ReportRequest \<Rightarrow> int \<Rightarrow> World \<Rightarrow> LastReportMeta option
     \<Rightarrow> (thrown + nat \<times> ReportJson) \<times> LastReportMeta option \<times> request list" where
  "GET request now w lastReport =
     (let tz = resolveTimezone w
      in if has_preview request then (Inr (200, preview_json tz lastReport), lastReport, [])
         else
           (case try_vessel w of
              Inl e \<Rightarrow>
                (Inr (502, failure_json (error_message e ''Failed to fetch vessel data'')),
                 lastReport, [GetReq vessel_url])
            | Inr vesselData \<Rightarrow>
                (case normaliseSlot w (slot_param request) now tz of
                   Inl e \<Rightarrow> (Inl e, lastReport, [GetReq vessel_url])
                 | Inr the_slot \<Rightarrow>
                     (let marineSnapshot =
                            (case try_marine w vesselData of Inl _ \<Rightarrow> None | Inr m \<Rightarrow> m);
                          fetched = [GetReq vessel_url, GetReq (marine_url vesselData),
                                     briefing_request now vesselData]
                      in case try_briefing w now vesselData of
                           Inl e \<Rightarrow>
                             (Inr (502,
                                failure_json (error_message e ''Failed to generate briefing'')),
                              lastReport, fetched)
                         | Inr briefing \<Rightarrow>
                             (let marineLine = buildMarineLine w marineSnapshot;
                                  the_sample = join newline [trim briefing, [], marineLine];
                                  (slackResult, slackRequests) =
                                    sendSlack
                                      \<lparr>fetchImpl = None,
                                       opt_message = slackMessage the_sample the_slot tz,
                                       opt_webhookUrl = None\<rparr> w;
                                  (emailResult, emailRequests) =
                                    sendEmail
                                      \<lparr>fetchImpl = None,
                                       opt_subject =
                                         emailSubject
                                           (case vessel_name vesselData of
                                              None \<Rightarrow> ''Vessel'' | Some n \<Rightarrow> n)
                                           the_slot tz,
                                       opt_text = the_sample,
                                       opt_to = None, opt_from = None, opt_apiKey = None\<rparr> w;
                                  the_sent = [slackResult, emailResult];
                                  is_ok = list_ex ok the_sent;
                                  report = \<lparr>slot = the_slot, generatedAt = now, timezone = tz,
                                            sample = the_sample, sent = the_sent\<rparr>
                              in (Inr (200,
                                    \<lparr>report_ok = is_ok, report_preview = False,
                                     report_error = None,
                                     report_slot = Some the_slot,
                                     report_generatedAt = Some (generatedAt report),
                                     report_timezone = Some tz,
                                     report_sample = Some the_sample,
                                     report_sent = the_sent,
                                     report_scheduleSize =
                                       Some (case schedule vesselData of
                                               None \<Rightarrow> 0 | Some l \<Rightarrow> length l),
                                     report_marine =
                                       Some (case marineSnapshot of
                                               None \<Rightarrow> MarineError ''n/a''
                                             | Some m \<Rightarrow> MarinePort (port m)),
                                     report_slotTime = Some (REPORT_SLOTS the_slot)\<rparr>),
                                  Some report,
                                  fetched @ slackRequests @ emailRequests))))))"

section \<open>The scheduler (scripts/scheduler.ts)\<close>







section \<open>Vocabulary of the statements\<close>

text \<open>A score in the unit interval, and the order \<^verbatim>\<open><=\<close> on two results of the scorer.\<close>

definition unit_interval :: "number \<Rightarrow> bool" where
  "unit_interval s = (case s of Fin r \<Rightarrow> 0 \<le> r \<and> r \<le> 1 | _ \<Rightarrow> False)"

definition le_result :: "number option \<Rightarrow> number option \<Rightarrow> bool" where
  "le_result a b = (case (a, b) of (Some x, Some y) \<Rightarrow> le_num x y | _ \<Rightarrow> False)"

text \<open>An optional string that \<^verbatim>\<open>!value\<close> rejects: absent or empty.\<close>

definition unresolved :: "string option \<Rightarrow> bool" where
  "unresolved v = (v = None \<or> v = Some [])"

text \<open>The fetch function a sender uses, and the one request each sender can issue.\<close>

definition used_fetch :: "'a SendOptions_scheme \<Rightarrow> World \<Rightarrow> request \<Rightarrow> fetch_outcome" where
  "used_fetch options w = (case fetchImpl options of None \<Rightarrow> fetch w | Some f \<Rightarrow> f)"

definition slack_post :: "string \<Rightarrow> string \<Rightarrow> request" where
  "slack_post hook message =
     PostReq (Absolute hook) [(''Content-Type'', ''application/json'')] (SlackBody message)"

definition email_post :: "string \<Rightarrow> string \<Rightarrow> string list \<Rightarrow> string \<Rightarrow> string \<Rightarrow> request" where
  "email_post apiKey sender recipients subject body =
     PostReq (Absolute ''https://api.resend.com/emails'')
       [(''Content-Type'', ''application/json''), (''Authorization'', ''Bearer '' @ apiKey)]
       (EmailBody sender recipients subject body)"




text \<open>The response the handler returned, if it returned one, and the text in it.\<close>

definition answer :: "thrown + nat \<times> ReportJson \<Rightarrow> (nat \<times> ReportJson) option" where
  "answer outcome = (case outcome of Inl _ \<Rightarrow> None | Inr r \<Rightarrow> Some r)"

definition answered_sample :: "thrown + nat \<times> ReportJson \<Rightarrow> string option" where
  "answered_sample outcome =
     (case outcome of Inl _ \<Rightarrow> None | Inr r \<Rightarrow> report_sample (snd r))"

text \<open>The marine snapshot the handler ends up with, and the text it composes.\<close>

definition marine_or_null :: "World \<Rightarrow> VesselPayload \<Rightarrow> MarinePayload option" where
  "marine_or_null w vesselData = (case try_marine w vesselData of Inl _ \<Rightarrow> None | Inr m \<Rightarrow> m)"

definition composed :: "World \<Rightarrow> string \<Rightarrow> MarinePayload option \<Rightarrow> string" where
  "composed w briefing marineSnapshot =
     join newline [trim briefing, [], buildMarineLine w marineSnapshot]"

definition is_digit :: "char \<Rightarrow> bool" where
  "is_digit c = (c \<in> set ''0123456789'')"

section \<open>Fixtures\<close>

text \<open>
  The mocked fetch of the report route's tests, with the five statuses and the marine
  body as parameters, and the environment the tests set up.
\<close>

definition vesselPayload :: VesselPayload where
  "vesselPayload =
     \<lparr>vessel_name = Some ''JOPETWIL 71'', vessel_status = Some ''Ready @ MW4'',
      vessel_port = None, schedule = Some []\<rparr>"

definition marineSnapshot :: MarinePayload where
  "marineSnapshot =
     \<lparr>hs = Some (Fin 1.2), windKt = Some (Fin 15.4), swellPeriod = Some (Fin 8.1),
      ioi = Some (Fin 82), port = Some ''Jebel Ali''\<rparr>"

definition briefingResponse :: string where
  "briefingResponse = ''Headline'' @ newline @ ''Body''"

definition fetchMock ::
  "nat \<Rightarrow> nat \<Rightarrow> nat \<Rightarrow> nat \<Rightarrow> nat \<Rightarrow> MarinePayload option \<Rightarrow> request \<Rightarrow> fetch_outcome" where
  "fetchMock vessel_st marine_st briefing_st slack_st email_st marine req =
     (case req of
        GetReq u \<Rightarrow>
          if pathname u = ''/api/vessel'' then
            Resolved \<lparr>status = vessel_st, json = Inr (VesselJson vesselPayload)\<rparr>
          else if pathname u = ''/api/marine'' then
            Resolved \<lparr>status = marine_st, json = Inr (MarineJson marine)\<rparr>
          else Rejected (Error ''Unexpected fetch'')
      | PostReq u headers body \<Rightarrow>
          (case body of
             BriefingRequest t v \<Rightarrow>
               Resolved \<lparr>status = briefing_st, json = Inr (BriefingJson (Some briefingResponse))\<rparr>
           | SlackBody m \<Rightarrow>
               Resolved \<lparr>status = slack_st, json = Inl (Error ''Unexpected end of JSON input'')\<rparr>
           | EmailBody f t s b \<Rightarrow>
               Resolved \<lparr>status = email_st, json = Inl (Error ''Unexpected token'')\<rparr>))"

definition test_world :: "(request \<Rightarrow> fetch_outcome) \<Rightarrow> World" where
  "test_world f =
     \<lparr>SLACK_WEBHOOK_URL = Some ''https://hooks.slack.com/services/test'',
      RESEND_API_KEY = Some ''test'',
      REPORT_SENDER = Some ''no-reply@example.com'',
      REPORT_RECIPIENTS = Some ''ops@example.com'',
      REPORT_TIMEZONE = Some ''Asia/Dubai'',
      REPORT_ENDPOINT = None,
      fetch = f,
      hour_in_zone = (\<lambda>tz t. Inr 6),
      number_toString = (\<lambda>x. ''1e+21'')\<rparr>"


text \<open>A world whose platform does not know the configured time zone.\<close>

definition unknown_zone_world :: World where
  "unknown_zone_world =
     (test_world (fetchMock 200 200 200 200 200 None))
       \<lparr>REPORT_TIMEZONE := Some ''Not/AZone'',
        hour_in_zone := (\<lambda>tz t. Inl (Error ''Invalid time zone specified: Not/AZone''))\<rparr>"

text \<open>A fetch that throws the given value.\<close>

definition throwing_fetch :: "thrown \<Rightarrow> request \<Rightarrow> fetch_outcome" where
  "throwing_fetch e req = Rejected e"

text \<open>An environment with nothing configured and no network.\<close>

definition bare_world :: World where
  "bare_world =
     \<lparr>SLACK_WEBHOOK_URL = None, RESEND_API_KEY = None, REPORT_SENDER = None,
      REPORT_RECIPIENTS = None, REPORT_TIMEZONE = None, REPORT_ENDPOINT = None,
      fetch = (\<lambda>req. Rejected (Error ''fetch failed'')),
      hour_in_zone = (\<lambda>tz t. Inr 6),
      number_toString = (\<lambda>x. ''1e+21'')\<rparr>"

definition voyage69 :: "number \<Rightarrow> number \<Rightarrow> VoyageRecord" where
  "voyage69 swell wind =
     \<lparr>voyage_id = ''69th'', cargo = ''Dune Sand'', etd = ''2025-09-28T16:00:00Z'',
      eta = ''2025-09-29T04:00:00Z'', voyage_status = ''Scheduled'', origin = ''MW4'',
      destination = ''AGI'', swellFt = swell, voyage_windKt = wind\<rparr>"

text \<open>A record stored by an earlier pass.\<close>

definition previousReport :: LastReportMeta where
  "previousReport =
     \<lparr>slot = Pm, generatedAt = 0, timezone = ''Asia/Dubai'', sample = ''Earlier briefing'',
      sent = [\<lparr>channel = Slack, ok = True, error = None\<rparr>,
              \<lparr>channel = Email, ok = True, error = None\<rparr>]\<rparr>"

section \<open>Properties of the risk scorer\<close>

lemma unit_intervalE:
  assumes "unit_interval s"
  obtains r where "s = Fin r" "0 \<le> r" "r \<le> 1"
  using assms by (cases s) (auto simp: unit_interval_def)

lemma hsScore_finite:
  "hsScore (Some (Fin x)) =
     Fin (if x \<le> 1.5 then 1 else if 2.5 \<le> x then 0 else 1 - (x - 1.5) / (2.5 - 1.5))"
  by (simp add: hsScore_def HS_CAUTION_def HS_NOGO_def ge_num_def sub_num_def)

lemma hsScore_special:
  "hsScore None = Fin 0.5" "hsScore (Some NaN) = Fin 0.5"
  "hsScore (Some NegInf) = Fin 1" "hsScore (Some PosInf) = Fin 0"
  by (simp_all add: hsScore_def HS_CAUTION_def HS_NOGO_def ge_num_def)

lemma windScore_finite:
  "windScore (Some (Fin x)) =
     Fin (if x \<le> 18 then 1 else if 28 \<le> x then 0 else 1 - (x - 18) / (28 - 18))"
  by (simp add: windScore_def WIND_CAUTION_def WIND_NOGO_def ge_num_def sub_num_def)

lemma windScore_special:
  "windScore None = Fin 0.5" "windScore (Some NaN) = Fin 0.5"
  "windScore (Some NegInf) = Fin 1" "windScore (Some PosInf) = Fin 0"
  by (simp_all add: windScore_def WIND_CAUTION_def WIND_NOGO_def ge_num_def)

lemma hsScore_unit: "unit_interval (hsScore h)"
proof (cases h)
  case None
  then show ?thesis by (simp add: hsScore_special unit_interval_def)
next
  case (Some x)
  then show ?thesis
    by (cases x) (simp_all add: hsScore_special hsScore_finite unit_interval_def)
qed

lemma windScore_unit: "unit_interval (windScore v)"
proof (cases v)
  case None
  then show ?thesis by (simp add: windScore_special unit_interval_def)
next
  case (Some x)
  then show ?thesis
    by (cases x) (simp_all add: windScore_special windScore_finite unit_interval_def)
qed

lemma boundedPeriod_finite: "boundedPeriod (Some (Fin x)) = Fin (min 12 (max 6 x))"
  by (simp add: boundedPeriod_def Math_min_def Math_max_def SWELL_MIN_def SWELL_MAX_def)

lemma boundedPeriod_special:
  "boundedPeriod None = Fin 8" "boundedPeriod (Some NaN) = NaN"
  "boundedPeriod (Some NegInf) = Fin 6" "boundedPeriod (Some PosInf) = Fin 12"
  by (simp_all add: boundedPeriod_def Math_min_def Math_max_def SWELL_MIN_def SWELL_MAX_def)

lemma swellScore_finite:
  "swellScore (Some (Fin x)) = Fin ((min 12 (max 6 x) - 6) / (12 - 6))"
  by (simp add: swellScore_def boundedPeriod_finite SWELL_MIN_def SWELL_MAX_def sub_num_def)

lemma swellScore_special:
  "swellScore None = Fin ((8 - 6) / (12 - 6))" "swellScore (Some NaN) = NaN"
  "swellScore (Some NegInf) = Fin 0" "swellScore (Some PosInf) = Fin 1"
  by (simp_all add: swellScore_def boundedPeriod_special SWELL_MIN_def SWELL_MAX_def sub_num_def)

lemma swellScore_unit:
  assumes "p \<noteq> Some NaN"
  shows "unit_interval (swellScore p)"
proof (cases p)
  case None
  then show ?thesis by (simp add: swellScore_special unit_interval_def)
next
  case (Some x)
  with assms show ?thesis
    by (cases x) (simp_all add: swellScore_special swellScore_finite unit_interval_def)
qed

lemma combined_Fin:
  assumes "hsScore (hs s) = Fin a" "windScore (windKt s) = Fin b"
    "swellScore (swellPeriod s) = Fin c"
  shows "combined s = Fin (0.5 * a + 0.35 * b + 0.15 * c)"
  using assms by (simp add: combined_def)

lemma clamp_id:
  assumes "0 \<le> n" "n \<le> 100"
  shows "Math_max (Fin 0) (Math_min (Fin 100) (Fin (of_int n))) = Fin (of_int n)"
  using assms by (auto simp: Math_min_def Math_max_def)

lemma computeIoi_Fin:
  assumes "hsScore (hs s) = Fin a" "windScore (windKt s) = Fin b"
    "swellScore (swellPeriod s) = Fin c"
    and "0 \<le> a" "a \<le> 1" "0 \<le> b" "b \<le> 1" "0 \<le> c" "c \<le> 1"
  shows "computeIoiFromMarine s =
           Some (Fin (of_int \<lfloor>(0.5 * a + 0.35 * b + 0.15 * c) * 100 + 1 / 2\<rfloor>))"
    and "0 \<le> \<lfloor>(0.5 * a + 0.35 * b + 0.15 * c) * 100 + 1 / 2\<rfloor>"
    and "\<lfloor>(0.5 * a + 0.35 * b + 0.15 * c) * 100 + 1 / 2\<rfloor> \<le> 100"
proof -
  let ?t = "(0.5 * a + 0.35 * b + 0.15 * c) * 100 + 1 / 2"
  have lo: "0 \<le> ?t" using assms(4-9) by simp
  have hi: "?t < 101" using assms(4-9) by simp
  show 1: "0 \<le> \<lfloor>?t\<rfloor>" using lo by simp
  show 2: "\<lfloor>?t\<rfloor> \<le> 100" using hi by (simp add: floor_le_iff)
  have "computeIoiFromMarine s =
          Some (Math_max (Fin 0) (Math_min (Fin 100) (Fin (of_int \<lfloor>?t\<rfloor>))))"
    by (simp add: computeIoiFromMarine_def combined_Fin [OF assms(1-3)])
  then show "computeIoiFromMarine s = Some (Fin (of_int \<lfloor>?t\<rfloor>))"
    by (simp only: clamp_id [OF 1 2])
qed

text \<open>
  Whenever the swell period is not NaN, the scorer returns an integer between 0 and 100:
  the weighted sum of the three sub-scores, times 100, rounded to nearest.
\<close>

lemma computeIoi_range:
  assumes "swellPeriod s \<noteq> Some NaN"
  shows "\<exists>a b c n. hsScore (hs s) = Fin a \<and> windScore (windKt s) = Fin b
           \<and> swellScore (swellPeriod s) = Fin c
           \<and> n = \<lfloor>(0.5 * a + 0.35 * b + 0.15 * c) * 100 + 1 / 2\<rfloor>
           \<and> computeIoiFromMarine s = Some (Fin (of_int n)) \<and> 0 \<le> n \<and> n \<le> 100"
proof -
  from hsScore_unit [of "hs s"] obtain a
    where a: "hsScore (hs s) = Fin a" "0 \<le> a" "a \<le> 1" by (rule unit_intervalE)
  from windScore_unit [of "windKt s"] obtain b
    where b: "windScore (windKt s) = Fin b" "0 \<le> b" "b \<le> 1" by (rule unit_intervalE)
  from swellScore_unit [OF assms] obtain c
    where c: "swellScore (swellPeriod s) = Fin c" "0 \<le> c" "c \<le> 1" by (rule unit_intervalE)
  from computeIoi_Fin [OF a(1) b(1) c(1) a(2,3) b(2,3) c(2,3)] a(1) b(1) c(1)
  show ?thesis by blast
qed

lemma hsScore_antimono:
  assumes "le_num x y"
  shows "le_num (hsScore (Some y)) (hsScore (Some x))"
  using assms by (cases x; cases y) (simp_all add: hsScore_special hsScore_finite)

lemma windScore_antimono:
  assumes "le_num x y"
  shows "le_num (windScore (Some y)) (windScore (Some x))"
  using assms by (cases x; cases y) (simp_all add: windScore_special windScore_finite)

lemma computeIoi_mono_weighted:
  assumes s1: "hsScore (hs s1) = Fin a1" "windScore (windKt s1) = Fin b1"
      "swellScore (swellPeriod s1) = Fin c"
    and s2: "hsScore (hs s2) = Fin a2" "windScore (windKt s2) = Fin b2"
      "swellScore (swellPeriod s2) = Fin c"
    and bounds: "0 \<le> a1" "a1 \<le> 1" "0 \<le> b1" "b1 \<le> 1" "0 \<le> a2" "a2 \<le> 1"
      "0 \<le> b2" "b2 \<le> 1" "0 \<le> c" "c \<le> 1"
    and le: "a2 \<le> a1" "b2 \<le> b1"
  shows "le_result (computeIoiFromMarine s2) (computeIoiFromMarine s1)"
proof -
  let ?t1 = "(0.5 * a1 + 0.35 * b1 + 0.15 * c) * 100 + 1 / 2"
  let ?t2 = "(0.5 * a2 + 0.35 * b2 + 0.15 * c) * 100 + 1 / 2"
  have r1: "computeIoiFromMarine s1 = Some (Fin (of_int \<lfloor>?t1\<rfloor>))"
    using s1 bounds by (intro computeIoi_Fin(1))
  have r2: "computeIoiFromMarine s2 = Some (Fin (of_int \<lfloor>?t2\<rfloor>))"
    using s2 bounds by (intro computeIoi_Fin(1))
  have "?t2 \<le> ?t1" using le by simp
  then have "\<lfloor>?t2\<rfloor> \<le> \<lfloor>?t1\<rfloor>" by (rule floor_mono)
  with r1 r2 show ?thesis by (simp add: le_result_def)
qed

text \<open>
  Whenever the swell period is not NaN, a larger wave height never gives a larger score,
  and neither does a larger wind speed.
\<close>

lemma computeIoi_antimono_hs:
  assumes "le_num h1 h2" and "swellPeriod s \<noteq> Some NaN"
  shows "le_result (computeIoiFromMarine (s\<lparr>hs := Some h2\<rparr>))
           (computeIoiFromMarine (s\<lparr>hs := Some h1\<rparr>))"
proof -
  from hsScore_unit [of "Some h1"] obtain a1
    where a1: "hsScore (Some h1) = Fin a1" "0 \<le> a1" "a1 \<le> 1" by (rule unit_intervalE)
  from hsScore_unit [of "Some h2"] obtain a2
    where a2: "hsScore (Some h2) = Fin a2" "0 \<le> a2" "a2 \<le> 1" by (rule unit_intervalE)
  from windScore_unit [of "windKt s"] obtain b
    where b: "windScore (windKt s) = Fin b" "0 \<le> b" "b \<le> 1" by (rule unit_intervalE)
  from swellScore_unit [OF assms(2)] obtain c
    where c: "swellScore (swellPeriod s) = Fin c" "0 \<le> c" "c \<le> 1" by (rule unit_intervalE)
  from hsScore_antimono [OF assms(1)] a1 a2 have "a2 \<le> a1" by simp
  with computeIoi_mono_weighted [of "s\<lparr>hs := Some h1\<rparr>" a1 b c "s\<lparr>hs := Some h2\<rparr>" a2 b]
    a1 a2 b c
  show ?thesis by simp
qed

lemma computeIoi_antimono_wind:
  assumes "le_num w1 w2" and "swellPeriod s \<noteq> Some NaN"
  shows "le_result (computeIoiFromMarine (s\<lparr>windKt := Some w2\<rparr>))
           (computeIoiFromMarine (s\<lparr>windKt := Some w1\<rparr>))"
proof -
  from windScore_unit [of "Some w1"] obtain b1
    where b1: "windScore (Some w1) = Fin b1" "0 \<le> b1" "b1 \<le> 1" by (rule unit_intervalE)
  from windScore_unit [of "Some w2"] obtain b2
    where b2: "windScore (Some w2) = Fin b2" "0 \<le> b2" "b2 \<le> 1" by (rule unit_intervalE)
  from hsScore_unit [of "hs s"] obtain a
    where a: "hsScore (hs s) = Fin a" "0 \<le> a" "a \<le> 1" by (rule unit_intervalE)
  from swellScore_unit [OF assms(2)] obtain c
    where c: "swellScore (swellPeriod s) = Fin c" "0 \<le> c" "c \<le> 1" by (rule unit_intervalE)
  from windScore_antimono [OF assms(1)] b1 b2 have "b2 \<le> b1" by simp
  with computeIoi_mono_weighted
    [of "s\<lparr>windKt := Some w1\<rparr>" a b1 c "s\<lparr>windKt := Some w2\<rparr>" a b2] b1 b2 a c
  show ?thesis by simp
qed

text \<open>
  C2. The claim: for every snapshot the scorer returns an integer in 0..100, the rounded
  weighted sum of three sub-scores in the unit interval. The wave-height and wind paths
  test for NaN; the swell-period path does not, and a snapshot whose swell period is NaN
  is scored NaN, which is no integer in 0..100.
\<close>

theorem computeIoi_NaN_swellPeriod:
  "computeIoiFromMarine \<lparr>hs = None, windKt = None, swellPeriod = Some NaN, ioi = None\<rparr> = Some NaN
   \<and> swellScore (Some NaN) = NaN
   \<and> hsScore (Some NaN) = Fin 0.5 \<and> windScore (Some NaN) = Fin 0.5"
  by (simp add: computeIoiFromMarine_def combined_def hsScore_special windScore_special
      swellScore_special Math_min_def Math_max_def)

text \<open>
  C7. The claim: with wind and swell period fixed, a larger wave height never gives a
  larger score, and likewise for wind. With the swell period fixed at NaN both scores
  are NaN, and \<^verbatim>\<open>NaN <= NaN\<close> is false: the order fails for wave heights 1 and 2, and for
  wind speeds 10 and 20.
\<close>

theorem computeIoi_order_fails_NaN_swellPeriod:
  "le_num (Fin 1) (Fin 2)
   \<and> \<not> le_result
        (computeIoiFromMarine
           \<lparr>hs = Some (Fin 2), windKt = Some (Fin 10), swellPeriod = Some NaN, ioi = None\<rparr>)
        (computeIoiFromMarine
           \<lparr>hs = Some (Fin 1), windKt = Some (Fin 10), swellPeriod = Some NaN, ioi = None\<rparr>)
   \<and> le_num (Fin 10) (Fin 20)
   \<and> \<not> le_result
        (computeIoiFromMarine
           \<lparr>hs = Some (Fin 1), windKt = Some (Fin 20), swellPeriod = Some NaN, ioi = None\<rparr>)
        (computeIoiFromMarine
           \<lparr>hs = Some (Fin 1), windKt = Some (Fin 10), swellPeriod = Some NaN, ioi = None\<rparr>)"
  by (simp add: le_result_def computeIoiFromMarine_def combined_def hsScore_finite
      windScore_finite swellScore_special Math_min_def Math_max_def)

text \<open>
  C9, as stated: the swell height in feet is multiplied by 0.3048. For a swell of
  6.5944883 ft and no wind the code scores 65, and the score of the snapshot converted
  with the factor 0.3048 is 64.
\<close>

theorem deriveVoyageIoi_not_factor_03048:
  "deriveVoyageIoi (voyage69 (Fin 6.5944883) (Fin 0)) = Fin 65
   \<and> computeIoiFromMarine
        \<lparr>hs = Some (mul_num (Fin 6.5944883) (Fin 0.3048)), windKt = Some (Fin 0),
         swellPeriod = Some (Fin 8), ioi = None\<rparr> = Some (Fin 64)"
  by (simp add: deriveVoyageIoi_def voyage69_def computeIoiFromMarine_def combined_def
      hsScore_finite windScore_finite swellScore_finite Math_min_def Math_max_def)

text \<open>
  C9, amended: the swell height in feet is divided by 3.28084 (which differs from the
  factor 0.3048 by less than one part in \<open>10\<^sup>7\<close>), the swell period is taken as 8 s and
  the wind is the voyage's wind in knots; the scorer is applied to that snapshot, it
  always yields an integer in 0..100, and the fallback 50 is what a missing value would
  be replaced by.
\<close>

theorem deriveVoyageIoi_conversion:
  "deriveVoyageIoi voyage =
     (case computeIoiFromMarine
             \<lparr>hs = Some (div_num (swellFt voyage) (Fin 3.28084)),
              windKt = Some (voyage_windKt voyage), swellPeriod = Some (Fin 8), ioi = None\<rparr>
      of None \<Rightarrow> Fin 50 | Some v \<Rightarrow> v)
   \<and> (\<exists>n. deriveVoyageIoi voyage = Fin (of_int n) \<and> 0 \<le> n \<and> n \<le> 100)
   \<and> (\<forall>f. swellFt voyage = Fin f \<longrightarrow>
          div_num (swellFt voyage) (Fin 3.28084) = Fin (f / 3.28084)
          \<and> \<bar>f / 3.28084 - f * 0.3048\<bar> \<le> \<bar>f\<bar> / 10 ^ 7)"
proof (intro conjI allI impI)
  show "deriveVoyageIoi voyage =
     (case computeIoiFromMarine
             \<lparr>hs = Some (div_num (swellFt voyage) (Fin 3.28084)),
              windKt = Some (voyage_windKt voyage), swellPeriod = Some (Fin 8), ioi = None\<rparr>
      of None \<Rightarrow> Fin 50 | Some v \<Rightarrow> v)"
    by (simp add: deriveVoyageIoi_def)
next
  let ?s = "\<lparr>hs = Some (div_num (swellFt voyage) (Fin 3.28084)),
              windKt = Some (voyage_windKt voyage), swellPeriod = Some (Fin 8), ioi = None\<rparr>"
  have "swellPeriod ?s \<noteq> Some NaN" by simp
  from computeIoi_range [OF this] obtain n
    where "computeIoiFromMarine ?s = Some (Fin (of_int n))" "0 \<le> n" "n \<le> 100" by blast
  then show "\<exists>n. deriveVoyageIoi voyage = Fin (of_int n) \<and> 0 \<le> n \<and> n \<le> 100"
    by (auto simp: deriveVoyageIoi_def)
next
  fix f assume "swellFt voyage = Fin f"
  then show "div_num (swellFt voyage) (Fin 3.28084) = Fin (f / 3.28084)" by simp
next
  fix f :: real
  have "f / 3.28084 - f * 0.3048 = f * (1 / 3.28084 - 0.3048)" by (simp add: algebra_simps)
  then have "\<bar>f / 3.28084 - f * 0.3048\<bar> = \<bar>f\<bar> * \<bar>1 / 3.28084 - 0.3048 :: real\<bar>"
    by (simp only: abs_mult)
  also have "\<dots> \<le> \<bar>f\<bar> * (1 / 10 ^ 7)"
    by (rule mult_left_mono) simp_all
  finally show "\<bar>f / 3.28084 - f * 0.3048\<bar> \<le> \<bar>f\<bar> / 10 ^ 7" by simp
qed

theorem deriveVoyageIoi_conversion_witness:
  "swellFt (voyage69 (Fin 6.5944883) (Fin 0)) = Fin 6.5944883
   \<and> div_num (swellFt (voyage69 (Fin 6.5944883) (Fin 0))) (Fin 3.28084) = Fin (6.5944883 / 3.28084)
   \<and> \<bar>6.5944883 / 3.28084 - 6.5944883 * 0.3048 :: real\<bar> \<le> \<bar>6.5944883\<bar> / 10 ^ 7"
proof -
  have h: "swellFt (voyage69 (Fin 6.5944883) (Fin 0)) = Fin 6.5944883"
    by (simp add: voyage69_def)
  from deriveVoyageIoi_conversion [of "voyage69 (Fin 6.5944883) (Fin 0)"] h
  have "div_num (swellFt (voyage69 (Fin 6.5944883) (Fin 0))) (Fin 3.28084) = Fin (6.5944883 / 3.28084)
        \<and> \<bar>6.5944883 / 3.28084 - 6.5944883 * 0.3048 :: real\<bar> \<le> \<bar>6.5944883\<bar> / 10 ^ 7"
    by blast
  with h show ?thesis by blast
qed

section \<open>Properties of the notifier\<close>

lemma trim_examples:
  "trim [] = []" "trim '' '' = []" "trim [CHR 0xC2, CHR 0xA0] = []"
  "trim ''ops@example.com'' = ''ops@example.com''"
  by (simp_all add: trim_def trimStart_def trimEnd_def white_space_def)

lemma sendSlack_channel: "channel (fst (sendSlack options w)) = Slack"
  by (simp add: sendSlack_def Let_def split: option.splits fetch_outcome.splits)

lemma sendEmail_channel: "channel (fst (sendEmail options w)) = Email"
  by (simp add: sendEmail_def Let_def split: option.splits fetch_outcome.splits)

lemma sendSlack_unresolved:
  assumes "unresolved (nullish (opt_webhookUrl options) (SLACK_WEBHOOK_URL w))"
  shows "sendSlack options w =
           (\<lparr>channel = Slack, ok = False, error = Some ''Missing Slack webhook URL''\<rparr>, [])"
  using assms by (auto simp: sendSlack_def unresolved_def)

lemma sendSlack_resolved:
  assumes "nullish (opt_webhookUrl options) (SLACK_WEBHOOK_URL w) = Some hook" "hook \<noteq> []"
  shows "sendSlack options w =
           (case used_fetch options w (slack_post hook (opt_message options)) of
              Resolved response \<Rightarrow>
                if 200 \<le> status response \<and> status response \<le> 299
                then \<lparr>channel = Slack, ok = True, error = None\<rparr>
                else \<lparr>channel = Slack, ok = False,
                      error = Some (''Slack webhook responded '' @ show_nat (status response))\<rparr>
            | Rejected e \<Rightarrow>
                \<lparr>channel = Slack, ok = False,
                 error = Some (case e of Error m \<Rightarrow> m | NonError \<Rightarrow> ''Slack webhook error'')\<rparr>,
            [slack_post hook (opt_message options)])"
  using assms
  by (simp add: sendSlack_def used_fetch_def slack_post_def Let_def response_ok_def
      error_message_def split: fetch_outcome.splits)

text \<open>
  C6, as stated: a thrown exception that carries no message gives the generic fallback
  string. The code asks whether the thrown value is an \<^verbatim>\<open>Error\<close>, not whether its message
  is empty: when fetch throws an \<^verbatim>\<open>Error\<close> with the empty message, the result's error is the
  empty string and not "Slack webhook error".
\<close>

theorem sendSlack_empty_message:
  "sendSlack
     \<lparr>fetchImpl = Some (throwing_fetch (Error [])), opt_message = ''Test message'',
      opt_webhookUrl = Some ''https://hooks.slack.com/services/test''\<rparr> bare_world =
     (\<lparr>channel = Slack, ok = False, error = Some []\<rparr>,
      [slack_post ''https://hooks.slack.com/services/test'' ''Test message''])
   \<and> Some [] \<noteq> Some ''Slack webhook error''"
  by (simp add: sendSlack_def nullish_def throwing_fetch_def error_message_def slack_post_def)

text \<open>
  C6, amended. \<^verbatim>\<open>sendSlack\<close> never throws and always returns a result for the chat
  channel. With no webhook URL from the argument or else the environment (absent or
  empty) it fails with "Missing Slack webhook URL" and issues no request. Otherwise it
  issues exactly one POST to the webhook: a response gives \<open>ok\<close> exactly when its status
  is 2xx, whatever its body, and otherwise an error that ends with the status code; a
  thrown \<^verbatim>\<open>Error\<close> gives its message, whatever that message is (the empty one included),
  and a thrown value that is not an \<^verbatim>\<open>Error\<close> gives the fallback "Slack webhook error".
\<close>

theorem sendSlack_outcomes:
  "channel (fst (sendSlack options w)) = Slack
   \<and> (unresolved (nullish (opt_webhookUrl options) (SLACK_WEBHOOK_URL w)) \<longrightarrow>
        sendSlack options w =
          (\<lparr>channel = Slack, ok = False, error = Some ''Missing Slack webhook URL''\<rparr>, []))
   \<and> (nullish (opt_webhookUrl options) (SLACK_WEBHOOK_URL w) = Some hook \<and> hook \<noteq> [] \<longrightarrow>
        snd (sendSlack options w) = [slack_post hook (opt_message options)]
        \<and> (\<forall>response.
              used_fetch options w (slack_post hook (opt_message options)) = Resolved response \<longrightarrow>
              ok (fst (sendSlack options w)) = (200 \<le> status response \<and> status response \<le> 299)
              \<and> error (fst (sendSlack options w)) =
                  (if 200 \<le> status response \<and> status response \<le> 299 then None
                   else Some (''Slack webhook responded '' @ show_nat (status response))))
        \<and> (\<forall>m. used_fetch options w (slack_post hook (opt_message options)) = Rejected (Error m) \<longrightarrow>
              fst (sendSlack options w) = \<lparr>channel = Slack, ok = False, error = Some m\<rparr>)
        \<and> (used_fetch options w (slack_post hook (opt_message options)) = Rejected NonError \<longrightarrow>
              fst (sendSlack options w) =
                \<lparr>channel = Slack, ok = False, error = Some ''Slack webhook error''\<rparr>))"
proof (intro conjI)
  show "channel (fst (sendSlack options w)) = Slack" by (rule sendSlack_channel)
next
  show "unresolved (nullish (opt_webhookUrl options) (SLACK_WEBHOOK_URL w)) \<longrightarrow>
        sendSlack options w =
          (\<lparr>channel = Slack, ok = False, error = Some ''Missing Slack webhook URL''\<rparr>, [])"
    by (simp add: sendSlack_unresolved)
next
  show "nullish (opt_webhookUrl options) (SLACK_WEBHOOK_URL w) = Some hook \<and> hook \<noteq> [] \<longrightarrow>
        snd (sendSlack options w) = [slack_post hook (opt_message options)]
        \<and> (\<forall>response.
              used_fetch options w (slack_post hook (opt_message options)) = Resolved response \<longrightarrow>
              ok (fst (sendSlack options w)) = (200 \<le> status response \<and> status response \<le> 299)
              \<and> error (fst (sendSlack options w)) =
                  (if 200 \<le> status response \<and> status response \<le> 299 then None
                   else Some (''Slack webhook responded '' @ show_nat (status response))))
        \<and> (\<forall>m. used_fetch options w (slack_post hook (opt_message options)) = Rejected (Error m) \<longrightarrow>
              fst (sendSlack options w) = \<lparr>channel = Slack, ok = False, error = Some m\<rparr>)
        \<and> (used_fetch options w (slack_post hook (opt_message options)) = Rejected NonError \<longrightarrow>
              fst (sendSlack options w) =
                \<lparr>channel = Slack, ok = False, error = Some ''Slack webhook error''\<rparr>)"
  proof
    assume "nullish (opt_webhookUrl options) (SLACK_WEBHOOK_URL w) = Some hook \<and> hook \<noteq> []"
    then have eq: "sendSlack options w =
           (case used_fetch options w (slack_post hook (opt_message options)) of
              Resolved response \<Rightarrow>
                if 200 \<le> status response \<and> status response \<le> 299
                then \<lparr>channel = Slack, ok = True, error = None\<rparr>
                else \<lparr>channel = Slack, ok = False,
                      error = Some (''Slack webhook responded '' @ show_nat (status response))\<rparr>
            | Rejected e \<Rightarrow>
                \<lparr>channel = Slack, ok = False,
                 error = Some (case e of Error m \<Rightarrow> m | NonError \<Rightarrow> ''Slack webhook error'')\<rparr>,
            [slack_post hook (opt_message options)])"
      by (simp add: sendSlack_resolved)
    show "snd (sendSlack options w) = [slack_post hook (opt_message options)]
        \<and> (\<forall>response.
              used_fetch options w (slack_post hook (opt_message options)) = Resolved response \<longrightarrow>
              ok (fst (sendSlack options w)) = (200 \<le> status response \<and> status response \<le> 299)
              \<and> error (fst (sendSlack options w)) =
                  (if 200 \<le> status response \<and> status response \<le> 299 then None
                   else Some (''Slack webhook responded '' @ show_nat (status response))))
        \<and> (\<forall>m. used_fetch options w (slack_post hook (opt_message options)) = Rejected (Error m) \<longrightarrow>
              fst (sendSlack options w) = \<lparr>channel = Slack, ok = False, error = Some m\<rparr>)
        \<and> (used_fetch options w (slack_post hook (opt_message options)) = Rejected NonError \<longrightarrow>
              fst (sendSlack options w) =
                \<lparr>channel = Slack, ok = False, error = Some ''Slack webhook error''\<rparr>)"
      by (simp add: eq)
  qed
qed

text \<open>
  The theorem at the three tests of tests/notifier.test.ts (status 200, status 500, no
  webhook) and at a fetch that throws.
\<close>

theorem sendSlack_outcomes_witness:
  "sendSlack \<lparr>fetchImpl = None, opt_message = ''Hi'', opt_webhookUrl = None\<rparr> bare_world =
     (\<lparr>channel = Slack, ok = False, error = Some ''Missing Slack webhook URL''\<rparr>, [])
   \<and> ok (fst (sendSlack
        \<lparr>fetchImpl = Some (\<lambda>req. Resolved \<lparr>status = 200, json = Inl NonError\<rparr>),
         opt_message = ''Test message'',
         opt_webhookUrl = Some ''https://hooks.slack.com/services/test''\<rparr> bare_world))
   \<and> error (fst (sendSlack
        \<lparr>fetchImpl = Some (\<lambda>req. Resolved \<lparr>status = 500, json = Inl NonError\<rparr>),
         opt_message = ''Test message'',
         opt_webhookUrl = Some ''https://hooks.slack.com/services/test''\<rparr> bare_world))
       = Some ''Slack webhook responded 500''
   \<and> fst (sendSlack
        \<lparr>fetchImpl = None, opt_message = ''Test message'',
         opt_webhookUrl = Some ''https://hooks.slack.com/services/test''\<rparr> bare_world)
       = \<lparr>channel = Slack, ok = False, error = Some ''fetch failed''\<rparr>"
proof -
  let ?hook = "''https://hooks.slack.com/services/test''"
  let ?f200 = "\<lambda>req :: request. Resolved \<lparr>status = 200, json = Inl NonError\<rparr>"
  let ?f500 = "\<lambda>req :: request. Resolved \<lparr>status = 500, json = Inl NonError\<rparr>"
  have 1: "unresolved (nullish (opt_webhookUrl \<lparr>fetchImpl = None, opt_message = ''Hi'',
      opt_webhookUrl = None\<rparr>) (SLACK_WEBHOOK_URL bare_world))"
    by (simp add: unresolved_def nullish_def bare_world_def)
  have 2: "nullish (opt_webhookUrl \<lparr>fetchImpl = f, opt_message = ''Test message'',
      opt_webhookUrl = Some ?hook\<rparr>) (SLACK_WEBHOOK_URL bare_world) = Some ?hook \<and> ?hook \<noteq> []" for f
    by (simp add: nullish_def)
  note a = sendSlack_outcomes [of "\<lparr>fetchImpl = None, opt_message = ''Hi'',
      opt_webhookUrl = None\<rparr>" bare_world]
  note b = sendSlack_outcomes [of "\<lparr>fetchImpl = Some ?f200, opt_message = ''Test message'',
      opt_webhookUrl = Some ?hook\<rparr>" bare_world ?hook]
  note c = sendSlack_outcomes [of "\<lparr>fetchImpl = Some ?f500, opt_message = ''Test message'',
      opt_webhookUrl = Some ?hook\<rparr>" bare_world ?hook]
  note d = sendSlack_outcomes [of "\<lparr>fetchImpl = None, opt_message = ''Test message'',
      opt_webhookUrl = Some ?hook\<rparr>" bare_world ?hook]
  from a 1 have r1: "sendSlack \<lparr>fetchImpl = None, opt_message = ''Hi'', opt_webhookUrl = None\<rparr>
      bare_world = (\<lparr>channel = Slack, ok = False, error = Some ''Missing Slack webhook URL''\<rparr>, [])"
    by blast
  from b 2 have r2: "ok (fst (sendSlack \<lparr>fetchImpl = Some ?f200, opt_message = ''Test message'',
      opt_webhookUrl = Some ?hook\<rparr> bare_world))"
    by (simp add: used_fetch_def)
  from c 2 have r3: "error (fst (sendSlack \<lparr>fetchImpl = Some ?f500, opt_message = ''Test message'',
      opt_webhookUrl = Some ?hook\<rparr> bare_world)) = Some ''Slack webhook responded 500''"
    by (simp add: used_fetch_def digit_def)
  from d 2 have r4: "fst (sendSlack \<lparr>fetchImpl = None, opt_message = ''Test message'',
      opt_webhookUrl = Some ?hook\<rparr> bare_world)
       = \<lparr>channel = Slack, ok = False, error = Some ''fetch failed''\<rparr>"
    by (simp add: used_fetch_def bare_world_def)
  from r1 r2 r3 r4 show ?thesis by blast
qed


lemma sendEmail_no_recipients:
  "email_recipients options w = [] \<Longrightarrow>
     sendEmail options w =
       (\<lparr>channel = Email, ok = False, error = Some ''Missing email recipients''\<rparr>, [])"
  by (simp add: sendEmail_def)

lemma sendEmail_no_key:
  "email_recipients options w \<noteq> [] \<Longrightarrow>
   unresolved (nullish (opt_apiKey options) (RESEND_API_KEY w)) \<Longrightarrow>
     sendEmail options w =
       (\<lparr>channel = Email, ok = False, error = Some ''Missing Resend API key''\<rparr>, [])"
  by (auto simp: sendEmail_def unresolved_def)

lemma sendEmail_no_sender:
  "email_recipients options w \<noteq> [] \<Longrightarrow>
   \<not> unresolved (nullish (opt_apiKey options) (RESEND_API_KEY w)) \<Longrightarrow>
   unresolved (nullish (opt_from options) (REPORT_SENDER w)) \<Longrightarrow>
     sendEmail options w =
       (\<lparr>channel = Email, ok = False, error = Some ''Missing report sender address''\<rparr>, [])"
  by (auto simp: sendEmail_def unresolved_def split: option.splits)

lemma sendEmail_posts:
  "email_recipients options w \<noteq> [] \<Longrightarrow>
   nullish (opt_apiKey options) (RESEND_API_KEY w) = Some apiKey \<Longrightarrow> apiKey \<noteq> [] \<Longrightarrow>
   nullish (opt_from options) (REPORT_SENDER w) = Some sender \<Longrightarrow> sender \<noteq> [] \<Longrightarrow>
     snd (sendEmail options w) =
       [email_post apiKey sender (email_recipients options w) (opt_subject options)
          (opt_text options)]"
  by (simp add: sendEmail_def email_post_def Let_def split: fetch_outcome.splits)

lemma email_recipients_resolution:
  "email_recipients options w =
     (case opt_to options of
        Some l \<Rightarrow> filter (\<lambda>entry. entry \<noteq> []) (map trim l)
      | None \<Rightarrow>
          (case REPORT_RECIPIENTS w of
             None \<Rightarrow> []
           | Some s \<Rightarrow> filter (\<lambda>entry. entry \<noteq> []) (map trim (split CHR '','' s))))"
  by (simp add: email_recipients_def normaliseRecipients_def split: option.splits)

text \<open>
  C5. \<^verbatim>\<open>sendEmail\<close> checks, in this order and before any request: the recipients (the
  explicit list, else the configured comma-separated string, entries trimmed and empty
  ones dropped; none left gives "Missing email recipients"), then the API key ("Missing
  Resend API key"), then the sender ("Missing report sender address"), each taken from the
  argument and else from the environment. Each failure issues no request; when all three
  are resolved exactly one POST is issued.
\<close>

theorem sendEmail_validation_order:
  "(email_recipients options w = [] \<longrightarrow>
      sendEmail options w =
        (\<lparr>channel = Email, ok = False, error = Some ''Missing email recipients''\<rparr>, []))
   \<and> (email_recipients options w \<noteq> []
        \<and> unresolved (nullish (opt_apiKey options) (RESEND_API_KEY w)) \<longrightarrow>
        sendEmail options w =
          (\<lparr>channel = Email, ok = False, error = Some ''Missing Resend API key''\<rparr>, []))
   \<and> (email_recipients options w \<noteq> []
        \<and> \<not> unresolved (nullish (opt_apiKey options) (RESEND_API_KEY w))
        \<and> unresolved (nullish (opt_from options) (REPORT_SENDER w)) \<longrightarrow>
        sendEmail options w =
          (\<lparr>channel = Email, ok = False, error = Some ''Missing report sender address''\<rparr>, []))
   \<and> (email_recipients options w \<noteq> []
        \<and> nullish (opt_apiKey options) (RESEND_API_KEY w) = Some apiKey \<and> apiKey \<noteq> []
        \<and> nullish (opt_from options) (REPORT_SENDER w) = Some sender \<and> sender \<noteq> [] \<longrightarrow>
        snd (sendEmail options w) =
          [email_post apiKey sender (email_recipients options w) (opt_subject options)
             (opt_text options)])
   \<and> email_recipients options w =
        (case opt_to options of
           Some l \<Rightarrow> filter (\<lambda>entry. entry \<noteq> []) (map trim l)
         | None \<Rightarrow>
             (case REPORT_RECIPIENTS w of
                None \<Rightarrow> []
              | Some s \<Rightarrow> filter (\<lambda>entry. entry \<noteq> []) (map trim (split CHR '','' s))))
   \<and> nullish (opt_apiKey options) (RESEND_API_KEY w) =
        (case opt_apiKey options of Some k \<Rightarrow> Some k | None \<Rightarrow> RESEND_API_KEY w)
   \<and> nullish (opt_from options) (REPORT_SENDER w) =
        (case opt_from options of Some k \<Rightarrow> Some k | None \<Rightarrow> REPORT_SENDER w)"
  using sendEmail_no_recipients [of options w] sendEmail_no_key [of options w]
    sendEmail_no_sender [of options w] sendEmail_posts [of options w apiKey sender]
    email_recipients_resolution [of options w]
  by (simp add: nullish_def split: option.splits)

text \<open>
  The theorem at the third test of tests/notifier.test.ts (an empty recipient list), at a
  call with no API key, at one with no sender, and at the first test (all three given).
\<close>

theorem sendEmail_validation_order_witness:
  "sendEmail \<lparr>fetchImpl = None, opt_subject = ''Subject'', opt_text = ''Body'', opt_to = Some [],
      opt_from = Some ''no-reply@example.com'', opt_apiKey = Some ''key''\<rparr> bare_world =
     (\<lparr>channel = Email, ok = False, error = Some ''Missing email recipients''\<rparr>, [])
   \<and> sendEmail \<lparr>fetchImpl = None, opt_subject = ''Subject'', opt_text = ''Body'',
      opt_to = Some [''ops@example.com''], opt_from = None, opt_apiKey = None\<rparr> bare_world =
     (\<lparr>channel = Email, ok = False, error = Some ''Missing Resend API key''\<rparr>, [])
   \<and> sendEmail \<lparr>fetchImpl = None, opt_subject = ''Subject'', opt_text = ''Body'',
      opt_to = Some [''ops@example.com''], opt_from = None, opt_apiKey = Some ''key''\<rparr> bare_world =
     (\<lparr>channel = Email, ok = False, error = Some ''Missing report sender address''\<rparr>, [])
   \<and> snd (sendEmail \<lparr>fetchImpl = None, opt_subject = ''Subject'', opt_text = ''Body'',
      opt_to = Some [''ops@example.com''], opt_from = Some ''no-reply@example.com'',
      opt_apiKey = Some ''key''\<rparr> bare_world) =
     [email_post ''key'' ''no-reply@example.com'' [''ops@example.com''] ''Subject'' ''Body'']"
proof -
  let ?o1 = "\<lparr>fetchImpl = None, opt_subject = ''Subject'', opt_text = ''Body'', opt_to = Some [],
      opt_from = Some ''no-reply@example.com'', opt_apiKey = Some ''key''\<rparr>"
  let ?o2 = "\<lparr>fetchImpl = None, opt_subject = ''Subject'', opt_text = ''Body'',
      opt_to = Some [''ops@example.com''], opt_from = None, opt_apiKey = None\<rparr>"
  let ?o3 = "\<lparr>fetchImpl = None, opt_subject = ''Subject'', opt_text = ''Body'',
      opt_to = Some [''ops@example.com''], opt_from = None, opt_apiKey = Some ''key''\<rparr>"
  let ?o4 = "\<lparr>fetchImpl = None, opt_subject = ''Subject'', opt_text = ''Body'',
      opt_to = Some [''ops@example.com''], opt_from = Some ''no-reply@example.com'',
      opt_apiKey = Some ''key''\<rparr>"
  have none: "email_recipients ?o1 bare_world = []"
    by (simp add: email_recipients_def normaliseRecipients_def)
  have some: "email_recipients \<lparr>fetchImpl = None, opt_subject = ''Subject'', opt_text = ''Body'',
      opt_to = Some [''ops@example.com''], opt_from = f, opt_apiKey = k\<rparr> bare_world
      = [''ops@example.com'']" for f k
    by (simp add: email_recipients_def normaliseRecipients_def trim_examples)
  have r1: "sendEmail ?o1 bare_world =
     (\<lparr>channel = Email, ok = False, error = Some ''Missing email recipients''\<rparr>, [])"
    using none
    by (rule sendEmail_validation_order [of ?o1 bare_world, THEN conjunct1, rule_format])
  have h2: "email_recipients ?o2 bare_world \<noteq> []
      \<and> unresolved (nullish (opt_apiKey ?o2) (RESEND_API_KEY bare_world))"
  proof
    show "email_recipients ?o2 bare_world \<noteq> []" by (simp add: some)
    show "unresolved (nullish (opt_apiKey ?o2) (RESEND_API_KEY bare_world))"
      by (simp add: unresolved_def nullish_def bare_world_def)
  qed
  have r2: "sendEmail ?o2 bare_world =
     (\<lparr>channel = Email, ok = False, error = Some ''Missing Resend API key''\<rparr>, [])"
    using h2
    by (rule sendEmail_validation_order
        [of ?o2 bare_world, THEN conjunct2, THEN conjunct1, rule_format])
  have h3: "email_recipients ?o3 bare_world \<noteq> []
      \<and> \<not> unresolved (nullish (opt_apiKey ?o3) (RESEND_API_KEY bare_world))
      \<and> unresolved (nullish (opt_from ?o3) (REPORT_SENDER bare_world))"
  proof (intro conjI)
    show "email_recipients ?o3 bare_world \<noteq> []" by (simp add: some)
    show "\<not> unresolved (nullish (opt_apiKey ?o3) (RESEND_API_KEY bare_world))"
      by (simp add: unresolved_def nullish_def)
    show "unresolved (nullish (opt_from ?o3) (REPORT_SENDER bare_world))"
      by (simp add: unresolved_def nullish_def bare_world_def)
  qed
  have r3: "sendEmail ?o3 bare_world =
     (\<lparr>channel = Email, ok = False, error = Some ''Missing report sender address''\<rparr>, [])"
    using h3
    by (rule sendEmail_validation_order
        [of ?o3 bare_world, THEN conjunct2, THEN conjunct2, THEN conjunct1, rule_format])
  have h4: "email_recipients ?o4 bare_world \<noteq> []
      \<and> nullish (opt_apiKey ?o4) (RESEND_API_KEY bare_world) = Some ''key'' \<and> ''key'' \<noteq> []
      \<and> nullish (opt_from ?o4) (REPORT_SENDER bare_world) = Some ''no-reply@example.com''
      \<and> ''no-reply@example.com'' \<noteq> []"
    by (simp add: some nullish_def)
  have "snd (sendEmail ?o4 bare_world) =
     [email_post ''key'' ''no-reply@example.com'' (email_recipients ?o4 bare_world)
        (opt_subject ?o4) (opt_text ?o4)]"
    using h4
    by (rule sendEmail_validation_order
        [of ?o4 bare_world "''key''" "''no-reply@example.com''",
          THEN conjunct2, THEN conjunct2, THEN conjunct2, THEN conjunct1, rule_format])
  then have r4: "snd (sendEmail ?o4 bare_world) =
     [email_post ''key'' ''no-reply@example.com'' [''ops@example.com''] ''Subject'' ''Body'']"
    by (simp add: some)
  from r1 r2 r3 r4 show ?thesis by blast
qed

text \<open>
  C10. With an explicit recipient list whose entries are all blank (the empty list
  included), \<^verbatim>\<open>sendEmail\<close> fails with "Missing email recipients" and issues no request,
  whatever recipients are configured; the configured string is read only when the
  argument is absent.
\<close>

theorem sendEmail_explicit_blank:
  assumes "opt_to options = Some l" and "\<forall>entry \<in> set l. trim entry = []"
  shows "sendEmail options w =
           (\<lparr>channel = Email, ok = False, error = Some ''Missing email recipients''\<rparr>, [])
         \<and> sendEmail options (w\<lparr>REPORT_RECIPIENTS := Some configured\<rparr>) =
             (\<lparr>channel = Email, ok = False, error = Some ''Missing email recipients''\<rparr>, [])
         \<and> email_recipients (options\<lparr>opt_to := None\<rparr>)
               (w\<lparr>REPORT_RECIPIENTS := Some configured\<rparr>) =
             filter (\<lambda>entry. entry \<noteq> []) (map trim (split CHR '','' configured))"
proof -
  have blank: "filter (\<lambda>entry. length entry > 0) (map trim l) = []"
    using assms(2) by (simp add: filter_empty_conv)
  have "email_recipients options v = []" for v
    using assms(1) blank by (simp add: email_recipients_def normaliseRecipients_def)
  then have "sendEmail options v =
           (\<lparr>channel = Email, ok = False, error = Some ''Missing email recipients''\<rparr>, [])" for v
    by (simp add: sendEmail_def)
  then show ?thesis
    by (simp add: email_recipients_def normaliseRecipients_def)
qed

text \<open>
  The theorem at a list of three blank entries (a space, the empty string, a no-break
  space), with a recipient configured.
\<close>

theorem sendEmail_explicit_blank_witness:
  "opt_to \<lparr>fetchImpl = None, opt_subject = ''Subject'', opt_text = ''Body'',
      opt_to = Some ['' '', [], [CHR 0xC2, CHR 0xA0]], opt_from = Some ''no-reply@example.com'',
      opt_apiKey = Some ''key''\<rparr> = Some ['' '', [], [CHR 0xC2, CHR 0xA0]]
   \<and> trim '' '' = [] \<and> trim [] = [] \<and> trim [CHR 0xC2, CHR 0xA0] = []
   \<and> sendEmail \<lparr>fetchImpl = None, opt_subject = ''Subject'', opt_text = ''Body'',
      opt_to = Some ['' '', [], [CHR 0xC2, CHR 0xA0]], opt_from = Some ''no-reply@example.com'',
      opt_apiKey = Some ''key''\<rparr> (test_world (fetchMock 200 200 200 200 200 None))
    = (\<lparr>channel = Email, ok = False, error = Some ''Missing email recipients''\<rparr>, [])"
proof -
  have h: "\<forall>entry \<in> set ['' '', [], [CHR 0xC2, CHR 0xA0]]. trim entry = []"
    by (simp add: trim_examples)
  from sendEmail_explicit_blank [OF _ h, of _ _ "[]"] show ?thesis
    by (simp add: trim_examples)
qed

section \<open>Properties of the report route\<close>

lemma GET_preview:
  "GET \<lparr>has_preview = True, slot_param = p\<rparr> now w lastReport =
     (Inr (200, preview_json (resolveTimezone w) lastReport), lastReport, [])"
  by (simp add: GET_def)


text \<open>
  When the slot has to be inferred and the platform does not know the time zone, the
  handler throws after the vessel fetch: it answers nothing and stores nothing.
\<close>

lemma GET_slot_failed:
  assumes "\<not> has_preview request" "try_vessel w = Inr vesselData"
    "normaliseSlot w (slot_param request) now (resolveTimezone w) = Inl e"
  shows "GET request now w lastReport = (Inl e, lastReport, [GetReq vessel_url])"
  using assms by (simp add: GET_def)

lemma GET_unknown_zone:
  "GET \<lparr>has_preview = False, slot_param = None\<rparr> 0 unknown_zone_world (Some previousReport) =
     (Inl (Error ''Invalid time zone specified: Not/AZone''), Some previousReport,
      [GetReq vessel_url])"
proof -
  have "try_vessel unknown_zone_world = Inr vesselPayload"
    by (simp add: try_vessel_def fetchJson_def fetchMock_def test_world_def pathname_def
        vessel_url_def relativeUrl_def response_ok_def as_vessel_def unknown_zone_world_def)
  moreover have "normaliseSlot unknown_zone_world None 0 (resolveTimezone unknown_zone_world) =
      Inl (Error ''Invalid time zone specified: Not/AZone'')"
    by (simp add: normaliseSlot_def inferSlot_def unknown_zone_world_def test_world_def)
  ultimately show ?thesis
    by (simp add: GET_slot_failed)
qed


text \<open>The whole result of a pass whose vessel fetch, slot and briefing fetch succeed.\<close>

lemma GET_generated:
  fixes request now w lastReport vesselData the_slot briefing
  defines "tz \<equiv> resolveTimezone w"
    and "marine \<equiv> (case try_marine w vesselData of Inl _ \<Rightarrow> None | Inr m \<Rightarrow> m)"
  defines "text_body \<equiv> join newline [trim briefing, [], buildMarineLine w marine]"
  defines "slack \<equiv>
      sendSlack \<lparr>fetchImpl = None, opt_message = slackMessage text_body the_slot tz,
                 opt_webhookUrl = None\<rparr> w"
    and "email \<equiv>
      sendEmail \<lparr>fetchImpl = None,
                 opt_subject =
                   emailSubject (case vessel_name vesselData of None \<Rightarrow> ''Vessel'' | Some n \<Rightarrow> n)
                     the_slot tz,
                 opt_text = text_body, opt_to = None, opt_from = None, opt_apiKey = None\<rparr> w"
  assumes "\<not> has_preview request" and "try_vessel w = Inr vesselData"
    and "normaliseSlot w (slot_param request) now (resolveTimezone w) = Inr the_slot"
    and "try_briefing w now vesselData = Inr briefing"
  shows "GET request now w lastReport =
     (Inr (200,
        \<lparr>report_ok = (ok (fst slack) \<or> ok (fst email)), report_preview = False,
         report_error = None, report_slot = Some the_slot, report_generatedAt = Some now,
         report_timezone = Some tz, report_sample = Some text_body,
         report_sent = [fst slack, fst email],
         report_scheduleSize =
           Some (case schedule vesselData of None \<Rightarrow> 0 | Some l \<Rightarrow> length l),
         report_marine =
           Some (case marine of None \<Rightarrow> MarineError ''n/a'' | Some m \<Rightarrow> MarinePort (port m)),
         report_slotTime = Some (REPORT_SLOTS the_slot)\<rparr>),
      Some \<lparr>slot = the_slot, generatedAt = now, timezone = tz, sample = text_body,
            sent = [fst slack, fst email]\<rparr>,
      [GetReq vessel_url, GetReq (marine_url vesselData), briefing_request now vesselData]
        @ snd slack @ snd email)"
  using assms(6-9)
  by (simp add: GET_def Let_def tz_def marine_def text_body_def slack_def email_def
      split: prod.splits)

text \<open>
  C1. In a pass whose vessel fetch and briefing fetch both succeed (the slot between them
  being resolved), the handler stores a record whose \<open>sent\<close> is exactly the result of
  \<^verbatim>\<open>sendSlack\<close> followed by the result of \<^verbatim>\<open>sendEmail\<close>, each called on the composed text,
  whether or not they succeeded; it issues the three fetches and then the requests of the
  two senders; the \<open>ok\<close> of the answer is true exactly when some entry of \<open>sent\<close> is,
  and so is the \<open>ok\<close> a later preview derives from the stored record (the stored record
  has no \<open>ok\<close> field of its own).
\<close>

theorem GET_sent_per_channel:
  fixes request now w lastReport vesselData the_slot briefing
  defines "tz \<equiv> resolveTimezone w"
    and "marine \<equiv> (case try_marine w vesselData of Inl _ \<Rightarrow> None | Inr m \<Rightarrow> m)"
  defines "text_body \<equiv> join newline [trim briefing, [], buildMarineLine w marine]"
  defines "slack \<equiv>
      sendSlack \<lparr>fetchImpl = None, opt_message = slackMessage text_body the_slot tz,
                 opt_webhookUrl = None\<rparr> w"
    and "email \<equiv>
      sendEmail \<lparr>fetchImpl = None,
                 opt_subject =
                   emailSubject (case vessel_name vesselData of None \<Rightarrow> ''Vessel'' | Some n \<Rightarrow> n)
                     the_slot tz,
                 opt_text = text_body, opt_to = None, opt_from = None, opt_apiKey = None\<rparr> w"
  assumes "\<not> has_preview request" and "try_vessel w = Inr vesselData"
    and "normaliseSlot w (slot_param request) now (resolveTimezone w) = Inr the_slot"
    and "try_briefing w now vesselData = Inr briefing"
  shows "\<exists>report body.
           GET request now w lastReport =
             (Inr (200, body), Some report,
              [GetReq vessel_url, GetReq (marine_url vesselData), briefing_request now vesselData]
                @ snd slack @ snd email)
           \<and> sent report = [fst slack, fst email]
           \<and> map channel (sent report) = [Slack, Email]
           \<and> length (sent report) = 2
           \<and> sample report = text_body
           \<and> report_sent body = sent report
           \<and> report_ok body = (\<exists>entry \<in> set (sent report). ok entry)
           \<and> map_option (\<lambda>r. report_ok (snd r))
                 (answer (fst (GET \<lparr>has_preview = True, slot_param = None\<rparr> later w'
                    (Some report)))) = Some (\<exists>entry \<in> set (sent report). ok entry)"
proof -
  have g: "GET request now w lastReport =
     (Inr (200,
        \<lparr>report_ok = (ok (fst slack) \<or> ok (fst email)), report_preview = False,
         report_error = None, report_slot = Some the_slot, report_generatedAt = Some now,
         report_timezone = Some tz, report_sample = Some text_body,
         report_sent = [fst slack, fst email],
         report_scheduleSize =
           Some (case schedule vesselData of None \<Rightarrow> 0 | Some l \<Rightarrow> length l),
         report_marine =
           Some (case marine of None \<Rightarrow> MarineError ''n/a'' | Some m \<Rightarrow> MarinePort (port m)),
         report_slotTime = Some (REPORT_SLOTS the_slot)\<rparr>),
      Some \<lparr>slot = the_slot, generatedAt = now, timezone = tz, sample = text_body,
            sent = [fst slack, fst email]\<rparr>,
      [GetReq vessel_url, GetReq (marine_url vesselData), briefing_request now vesselData]
        @ snd slack @ snd email)"
    unfolding tz_def marine_def text_body_def slack_def email_def
    by (rule GET_generated [OF assms(6-9)])
  have c: "channel (fst slack) = Slack" "channel (fst email) = Email"
    by (simp_all add: slack_def email_def sendSlack_channel sendEmail_channel)
  show ?thesis
    by (simp add: g c GET_preview preview_json_def answer_def)
qed

lemma fixture_try_vessel:
  "try_vessel (test_world (fetchMock 200 ms bs ss es m)) = Inr vesselPayload"
  by (simp add: try_vessel_def fetchJson_def fetchMock_def test_world_def pathname_def
      vessel_url_def relativeUrl_def response_ok_def as_vessel_def)

lemma fixture_try_briefing:
  "try_briefing (test_world (fetchMock vs ms 200 ss es m)) now vd = Inr briefingResponse"
  by (simp add: try_briefing_def fetchMock_def test_world_def briefing_request_def
      response_ok_def as_briefing_def)

lemma fixture_try_marine:
  "try_marine (test_world (fetchMock vs 200 bs ss es m)) vd = Inr m"
  by (simp add: try_marine_def fetchJson_def fetchMock_def test_world_def pathname_def
      marine_url_def relativeUrl_def response_ok_def as_marine_def)

lemma fixture_slot:
  "normaliseSlot (test_world f) (Some ''pm'') now tz = Inr Pm"
  "normaliseSlot (test_world f) None now tz = Inr Am"
  by (simp_all add: normaliseSlot_def inferSlot_def test_world_def)

lemma fixture_sendSlack:
  "sendSlack \<lparr>fetchImpl = None, opt_message = m, opt_webhookUrl = None\<rparr>
     (test_world (fetchMock vs ms bs 200 es mar)) =
   (\<lparr>channel = Slack, ok = True, error = None\<rparr>,
    [slack_post ''https://hooks.slack.com/services/test'' m])"
  by (simp add: sendSlack_def nullish_def test_world_def fetchMock_def response_ok_def
      slack_post_def)

lemma fixture_sendEmail_500:
  "fst (sendEmail \<lparr>fetchImpl = None, opt_subject = s, opt_text = m, opt_to = None,
          opt_from = None, opt_apiKey = None\<rparr> (test_world (fetchMock vs ms bs ss 500 mar))) =
   \<lparr>channel = Email, ok = False, error = Some ''Resend responded 500''\<rparr>"
  by (simp add: sendEmail_def email_recipients_def normaliseRecipients_def nullish_def
      test_world_def fetchMock_def response_ok_def trim_examples digit_def)

text \<open>
  The theorem at the second of the report route's tests: the chat webhook answers 200
  and the email service 500.
\<close>

theorem GET_sent_per_channel_witness:
  "\<not> has_preview \<lparr>has_preview = False, slot_param = Some ''pm''\<rparr>
   \<and> try_vessel (test_world (fetchMock 200 200 200 200 500 (Some marineSnapshot))) = Inr vesselPayload
   \<and> normaliseSlot (test_world (fetchMock 200 200 200 200 500 (Some marineSnapshot)))
        (slot_param \<lparr>has_preview = False, slot_param = Some ''pm''\<rparr>) 0
        (resolveTimezone (test_world (fetchMock 200 200 200 200 500 (Some marineSnapshot)))) = Inr Pm
   \<and> try_briefing (test_world (fetchMock 200 200 200 200 500 (Some marineSnapshot))) 0 vesselPayload
       = Inr briefingResponse
   \<and> map_option sent
        (fst (snd (GET \<lparr>has_preview = False, slot_param = Some ''pm''\<rparr> 0
                   (test_world (fetchMock 200 200 200 200 500 (Some marineSnapshot))) None)))
       = Some [\<lparr>channel = Slack, ok = True, error = None\<rparr>,
               \<lparr>channel = Email, ok = False, error = Some ''Resend responded 500''\<rparr>]
   \<and> map_option (\<lambda>r. report_ok (snd r))
        (answer (fst (GET \<lparr>has_preview = False, slot_param = Some ''pm''\<rparr> 0
                   (test_world (fetchMock 200 200 200 200 500 (Some marineSnapshot))) None)))
       = Some True"
proof -
  let ?w = "test_world (fetchMock 200 200 200 200 500 (Some marineSnapshot))"
  let ?req = "\<lparr>has_preview = False, slot_param = Some ''pm''\<rparr>"
  have 1: "\<not> has_preview ?req" by simp
  have 2: "try_vessel ?w = Inr vesselPayload" by (rule fixture_try_vessel)
  have 3: "normaliseSlot ?w (slot_param ?req) 0 (resolveTimezone ?w) = Inr Pm"
    by (simp add: fixture_slot)
  have 4: "try_briefing ?w 0 vesselPayload = Inr briefingResponse" by (rule fixture_try_briefing)
  from GET_sent_per_channel [OF 1 2 3 4, of None] obtain report body requests
    where g: "GET ?req 0 ?w None = (Inr (200, body), Some report, requests)"
      and s: "sent report =
        [fst (sendSlack \<lparr>fetchImpl = None,
                opt_message = slackMessage
                  (join newline [trim briefingResponse, [],
                     buildMarineLine ?w (case try_marine ?w vesselPayload of
                        Inl _ \<Rightarrow> None | Inr m \<Rightarrow> m)]) Pm (resolveTimezone ?w),
                opt_webhookUrl = None\<rparr> ?w),
         fst (sendEmail \<lparr>fetchImpl = None,
                opt_subject = emailSubject
                  (case vessel_name vesselPayload of None \<Rightarrow> ''Vessel'' | Some n \<Rightarrow> n)
                  Pm (resolveTimezone ?w),
                opt_text = join newline [trim briefingResponse, [],
                     buildMarineLine ?w (case try_marine ?w vesselPayload of
                        Inl _ \<Rightarrow> None | Inr m \<Rightarrow> m)],
                opt_to = None, opt_from = None, opt_apiKey = None\<rparr> ?w)]"
      and k: "report_ok body = (\<exists>entry \<in> set (sent report). ok entry)"
    by blast
  have s': "sent report = [\<lparr>channel = Slack, ok = True, error = None\<rparr>,
               \<lparr>channel = Email, ok = False, error = Some ''Resend responded 500''\<rparr>]"
    by (simp only: s fixture_sendSlack fixture_sendEmail_500 fst_conv)
  from g k s' have "map_option sent (fst (snd (GET ?req 0 ?w None))) =
      Some [\<lparr>channel = Slack, ok = True, error = None\<rparr>,
            \<lparr>channel = Email, ok = False, error = Some ''Resend responded 500''\<rparr>]"
    and "map_option (\<lambda>r. report_ok (snd r)) (answer (fst (GET ?req 0 ?w None))) = Some True"
    by (simp_all add: answer_def)
  with 1 2 3 4 show ?thesis by blast
qed









lemma trim_briefingResponse: "trim briefingResponse = briefingResponse"
  by (simp add: trim_def trimStart_def trimEnd_def white_space_def briefingResponse_def
      newline_def)


lemma floor_nat_half: "\<lfloor>real n + 1 / 2\<rfloor> = int n"
  by (simp add: floor_eq_iff)

lemma toFixed_0_nat:
  assumes "n \<le> 100"
  shows "toFixed w 0 (real n) = show_nat n"
proof -
  have "real n < 10 ^ 21"
  proof -
    have "real n \<le> 100" using assms by simp
    also have "(100 :: real) < 10 ^ 21" by simp
    finally show ?thesis .
  qed
  then have small: "\<not> 10 ^ 21 \<le> \<bar>real n\<bar>" by simp
  have "nat \<lfloor>\<bar>real n\<bar> * 10 ^ 0 + 1 / 2\<rfloor> = n"
    by (simp add: floor_nat_half)
  with small show ?thesis
    by (simp add: toFixed_def Let_def del: show_nat.simps)
qed

lemma buildMarineLine_fixture:
  assumes "hs m = Some (Fin 1.2)" "windKt m = Some (Fin 15.4)"
  shows "buildMarineLine w (Some m) =
           ''[Marine Snapshot] Hs 1.20 m '' @ middot @ '' Wind 15.40 kt '' @ middot @ '' IOI '' @
           (case ioi m of Some (Fin x) \<Rightarrow> toFixed w 0 x | _ \<Rightarrow> ''n/a'')"
proof -
  have "toFixed w 2 1.2 = ''1.20''" "toFixed w 2 15.4 = ''15.40''"
    by (simp_all add: toFixed_def Let_def digit_def)
  then have "formatMetric w (hs m) ''m'' = ''1.20 m''"
    "formatMetric w (windKt m) ''kt'' = ''15.40 kt''"
    using assms by (simp_all only: formatMetric_def option.case number.case append.simps)
  then show ?thesis
    by (simp add: buildMarineLine_def Let_def)
qed

lemma GET_sample:
  assumes "\<not> has_preview request" "try_vessel w = Inr vesselData"
    "normaliseSlot w (slot_param request) now (resolveTimezone w) = Inr the_slot"
    "try_briefing w now vesselData = Inr briefing"
  shows "answered_sample (fst (GET request now w lastReport)) =
           Some (composed w briefing (marine_or_null w vesselData))"
  by (simp add: GET_generated [OF assms] answered_sample_def composed_def marine_or_null_def)

text \<open>
  C8, as stated: with the narrative "Headline\nBody" and a snapshot that has only
  hs = 1.2 and windKt = 15.4, the last line shows an integer after "IOI". The handler
  prints the snapshot's own \<open>ioi\<close> field, which is absent here: the line ends with
  "IOI n/a", not with a digit.
\<close>

theorem GET_sample_without_ioi:
  "answered_sample (fst (GET \<lparr>has_preview = False, slot_param = None\<rparr> 0
      (test_world (fetchMock 200 200 200 200 200
         (Some \<lparr>hs = Some (Fin 1.2), windKt = Some (Fin 15.4), swellPeriod = None, ioi = None,
                 port = None\<rparr>))) None))
     = Some (''Headline'' @ newline @ ''Body'' @ newline @ newline @
             ''[Marine Snapshot] Hs 1.20 m '' @ middot @ '' Wind 15.40 kt '' @ middot @ '' IOI n/a'')
   \<and> \<not> is_digit (last (''Headline'' @ newline @ ''Body'' @ newline @ newline @
             ''[Marine Snapshot] Hs 1.20 m '' @ middot @ '' Wind 15.40 kt '' @ middot @ '' IOI n/a''))"
proof -
  let ?m = "\<lparr>hs = Some (Fin 1.2), windKt = Some (Fin 15.4), swellPeriod = None, ioi = None,
             port = None\<rparr>"
  let ?w = "test_world (fetchMock 200 200 200 200 200 (Some ?m))"
  let ?req = "\<lparr>has_preview = False, slot_param = None\<rparr>"
  have p: "\<not> has_preview ?req" by simp
  have s: "normaliseSlot ?w (slot_param ?req) 0 (resolveTimezone ?w) = Inr Am"
    by (simp add: fixture_slot)
  have "marine_or_null ?w vesselPayload = Some ?m"
    by (simp add: marine_or_null_def fixture_try_marine)
  moreover have "buildMarineLine ?w (Some ?m) =
      ''[Marine Snapshot] Hs 1.20 m '' @ middot @ '' Wind 15.40 kt '' @ middot @ '' IOI n/a''"
    by (simp add: buildMarineLine_fixture)
  ultimately have "composed ?w briefingResponse (marine_or_null ?w vesselPayload) =
      ''Headline'' @ newline @ ''Body'' @ newline @ newline @
      ''[Marine Snapshot] Hs 1.20 m '' @ middot @ '' Wind 15.40 kt '' @ middot @ '' IOI n/a''"
    by (simp add: composed_def trim_briefingResponse) (simp add: briefingResponse_def)
  moreover have "answered_sample (fst (GET ?req 0 ?w None)) =
      Some (composed ?w briefingResponse (marine_or_null ?w vesselPayload))"
    by (rule GET_sample [OF p fixture_try_vessel s fixture_try_briefing])
  ultimately show ?thesis by (simp add: is_digit_def)
qed

text \<open>
  C8, amended: with the narrative "Headline\nBody" (\<open>briefingResponse\<close>) and a snapshot
  with hs = 1.2 and windKt = 15.4, in a pass that reaches its answer, the composed text is
  the trimmed narrative, an empty line, and the line
  "[Marine Snapshot] Hs 1.20 m \<cdot> Wind 15.40 kt \<cdot> IOI " followed by the snapshot's own
  \<open>ioi\<close> field: its decimal digits when it is an integer from 0 to 100, and "n/a" when
  the field is absent.
\<close>

theorem GET_sample_marine_line:
  assumes "\<not> has_preview request" and "try_vessel w = Inr vesselData"
    and "normaliseSlot w (slot_param request) now (resolveTimezone w) = Inr the_slot"
    and "try_briefing w now vesselData = Inr briefingResponse"
    and "try_marine w vesselData = Inr (Some m)"
    and "hs m = Some (Fin 1.2)" and "windKt m = Some (Fin 15.4)"
  shows "briefingResponse = ''Headline'' @ newline @ ''Body''
       \<and> (ioi m = Some (Fin (real n)) \<and> n \<le> 100 \<longrightarrow>
            answered_sample (fst (GET request now w lastReport)) =
              Some (briefingResponse @ newline @ newline @
                    ''[Marine Snapshot] Hs 1.20 m '' @ middot @ '' Wind 15.40 kt '' @ middot @
                    '' IOI '' @ show_nat n))
       \<and> (ioi m = None \<longrightarrow>
            answered_sample (fst (GET request now w lastReport)) =
              Some (briefingResponse @ newline @ newline @
                    ''[Marine Snapshot] Hs 1.20 m '' @ middot @ '' Wind 15.40 kt '' @ middot @
                    '' IOI n/a''))"
proof -
  have m: "marine_or_null w vesselData = Some m"
    using assms(5) by (simp add: marine_or_null_def)
  have "composed w briefingResponse (Some m) =
      briefingResponse @ newline @ newline @ buildMarineLine w (Some m)"
    by (simp add: composed_def trim_briefingResponse)
  with GET_sample [OF assms(1-4), of lastReport]
  have s: "answered_sample (fst (GET request now w lastReport)) =
      Some (briefingResponse @ newline @ newline @ buildMarineLine w (Some m))"
    by (simp only: m)
  show ?thesis
  proof (intro conjI impI)
    show "briefingResponse = ''Headline'' @ newline @ ''Body''"
      by (simp add: briefingResponse_def)
  next
    assume "ioi m = Some (Fin (real n)) \<and> n \<le> 100"
    then have "buildMarineLine w (Some m) =
        ''[Marine Snapshot] Hs 1.20 m '' @ middot @ '' Wind 15.40 kt '' @ middot @
        '' IOI '' @ show_nat n"
      by (simp only: buildMarineLine_fixture [OF assms(6,7)] option.case number.case
          toFixed_0_nat)
    then show "answered_sample (fst (GET request now w lastReport)) =
              Some (briefingResponse @ newline @ newline @
                    ''[Marine Snapshot] Hs 1.20 m '' @ middot @ '' Wind 15.40 kt '' @ middot @
                    '' IOI '' @ show_nat n)"
      by (simp only: s)
  next
    assume "ioi m = None"
    then have "buildMarineLine w (Some m) =
        ''[Marine Snapshot] Hs 1.20 m '' @ middot @ '' Wind 15.40 kt '' @ middot @ '' IOI n/a''"
      by (simp add: buildMarineLine_fixture [OF assms(6,7)])
    then show "answered_sample (fst (GET request now w lastReport)) =
              Some (briefingResponse @ newline @ newline @
                    ''[Marine Snapshot] Hs 1.20 m '' @ middot @ '' Wind 15.40 kt '' @ middot @
                    '' IOI n/a'')"
      by (simp only: s)
  qed
qed

text \<open>The theorem at the first of the report route's tests, whose snapshot has ioi = 82.\<close>

theorem GET_sample_marine_line_witness:
  "answered_sample (fst (GET \<lparr>has_preview = False, slot_param = None\<rparr> 0
      (test_world (fetchMock 200 200 200 200 200 (Some marineSnapshot))) None))
     = Some (''Headline'' @ newline @ ''Body'' @ newline @ newline @
             ''[Marine Snapshot] Hs 1.20 m '' @ middot @ '' Wind 15.40 kt '' @ middot @ '' IOI 82'')"
proof -
  let ?w = "test_world (fetchMock 200 200 200 200 200 (Some marineSnapshot))"
  let ?req = "\<lparr>has_preview = False, slot_param = None\<rparr>"
  have p: "\<not> has_preview ?req" by simp
  have s: "normaliseSlot ?w (slot_param ?req) 0 (resolveTimezone ?w) = Inr Am"
    by (simp add: fixture_slot)
  have h: "hs marineSnapshot = Some (Fin 1.2)" and k: "windKt marineSnapshot = Some (Fin 15.4)"
    by (simp_all add: marineSnapshot_def)
  have i: "ioi marineSnapshot = Some (Fin (real 82)) \<and> (82 :: nat) \<le> 100"
    by (simp add: marineSnapshot_def)
  have "answered_sample (fst (GET ?req 0 ?w None))
     = Some (briefingResponse @ newline @ newline @
             ''[Marine Snapshot] Hs 1.20 m '' @ middot @ '' Wind 15.40 kt '' @ middot @
             '' IOI '' @ show_nat 82)"
    using i
    by (rule GET_sample_marine_line
        [OF p fixture_try_vessel s fixture_try_briefing fixture_try_marine h k,
          THEN conjunct2, THEN conjunct1, rule_format])
  then show ?thesis by (simp add: digit_def briefingResponse_def)
qed

section \<open>Properties of the scheduler\<close>







end
